theory Spec2Isabelle
  imports Complex_Main
begin

section \<open>Values: exceptions and tensors\<close>

text \<open>
  The development embeds the parts of \<^verbatim>\<open>src/vjf/module.py\<close>, \<^verbatim>\<open>src/vjf/model.py\<close> and
  \<^verbatim>\<open>src/vjf/online.py\<close> that the specification's properties are about.

  Floating-point numbers are idealised as real numbers: no rounding, no overflow. Where a
  torch operation on reals would leave the finite numbers (the square root of a negative
  entry, a division by a zero entry, the mean of an empty tensor) the code carries on with
  \<^verbatim>\<open>nan\<close> or \<^verbatim>\<open>inf\<close>; the model stops there with \<open>NonFinite\<close>, which is not a Python
  exception and about which no theorem below concludes anything but that the model stops.
  Batched linear algebra (tensors of more than two axes given to \<^verbatim>\<open>cholesky\<close>,
  \<^verbatim>\<open>triangular_solve\<close>, \<^verbatim>\<open>cholesky_solve\<close>) is outside the model: \<open>Unmodelled\<close>.
  \<open>ModuleError\<close> stands for any exception raised inside a module that is not among the sources.
  A Python exception is a value \<open>Inl e\<close>; a function that mutates \<^verbatim>\<open>self\<close> returns the
  state it leaves behind next to its result, also when it raises.
\<close>

datatype error =
    ZeroDivisionError
  | AssertionError
  | IndexError
  | TypeError
  | RuntimeError
  | LinAlgError
  | ImportError
  | UnboundLocalError
  | AttributeError
  | ModuleError
  | ConversionError
  | NotImplementedError
  | NonFinite
  | Unmodelled

fun and_then :: "error + 'a \<Rightarrow> ('a \<Rightarrow> error + 'b) \<Rightarrow> error + 'b" where
  "and_then (Inl e) f = Inl e"
| "and_then (Inr x) f = f x"

text \<open>A tensor is its shape and its entries in row-major order, as torch stores a
  contiguous tensor. A well-formed tensor has as many entries as its shape says.\<close>

datatype tensor = Tensor (shape: "nat list") (data: "real list")

definition wf_tensor :: "tensor \<Rightarrow> bool" where
  "wf_tensor a = (length (data a) = prod_list (shape a))"

definition ndim :: "tensor \<Rightarrow> nat" where
  "ndim a = length (shape a)"

definition nrows :: "tensor \<Rightarrow> nat" where
  "nrows a = shape a ! 0"

definition ncols :: "tensor \<Rightarrow> nat" where
  "ncols a = shape a ! 1"

text \<open>Entry \<open>(i, j)\<close> of a two-axis tensor, and the two-axis tensor with given entries.\<close>

definition get2 :: "tensor \<Rightarrow> nat \<Rightarrow> nat \<Rightarrow> real" where
  "get2 a i j = data a ! (i * ncols a + j)"

definition mk2 :: "nat \<Rightarrow> nat \<Rightarrow> (nat \<Rightarrow> nat \<Rightarrow> real) \<Rightarrow> tensor" where
  "mk2 n c f = Tensor [n, c] (map (\<lambda>k. f (k div c) (k mod c)) [0..<n * c])"

subsection \<open>Broadcasting\<close>

text \<open>torch aligns two shapes at their last axis; an axis of size 1 is stretched, a missing
  leading axis is added. \<open>bshape_rev\<close> works on the reversed shapes.\<close>

fun bshape_rev :: "nat list \<Rightarrow> nat list \<Rightarrow> nat list option" where
  "bshape_rev [] ys = Some ys"
| "bshape_rev xs [] = Some xs"
| "bshape_rev (x # xs) (y # ys) =
     (if x = y \<or> y = 1 then map_option ((#) x) (bshape_rev xs ys)
      else if x = 1 then map_option ((#) y) (bshape_rev xs ys)
      else None)"

definition broadcast_shapes :: "nat list \<Rightarrow> nat list \<Rightarrow> nat list option" where
  "broadcast_shapes s1 s2 = map_option rev (bshape_rev (rev s1) (rev s2))"

fun unravel :: "nat list \<Rightarrow> nat \<Rightarrow> nat list" where
  "unravel [] k = []"
| "unravel (d # ds) k = (k div prod_list ds) # unravel ds (k mod prod_list ds)"

fun ravel :: "nat list \<Rightarrow> nat list \<Rightarrow> nat" where
  "ravel (d # ds) (i # js) = i * prod_list ds + ravel ds js"
| "ravel ds js = 0"

text \<open>The position in a tensor of shape \<open>s\<close> that is read for the entry \<open>idx\<close> of the
  broadcast result.\<close>

definition bindex :: "nat list \<Rightarrow> nat list \<Rightarrow> nat" where
  "bindex s idx =
     ravel s (map2 (\<lambda>d i. if d = 1 then 0 else i) s (drop (length idx - length s) idx))"

definition bop :: "(real \<Rightarrow> real \<Rightarrow> real) \<Rightarrow> tensor \<Rightarrow> tensor \<Rightarrow> error + tensor" where
  "bop f a b =
     (case broadcast_shapes (shape a) (shape b) of
        None \<Rightarrow> Inl RuntimeError
      | Some s \<Rightarrow>
          Inr (Tensor s (map (\<lambda>k. f (data a ! bindex (shape a) (unravel s k))
                                      (data b ! bindex (shape b) (unravel s k)))
                             [0..<prod_list s])))"

text \<open>For two matrices the rule reads: sizes agree or one of them is 1 (\<open>bcompat\<close>), the
  result has the size that is not 1 (\<open>bdim\<close>), and a stretched axis is read at 0 (\<open>bi\<close>).\<close>

definition bcompat :: "nat \<Rightarrow> nat \<Rightarrow> bool" where
  "bcompat x y = (x = y \<or> y = 1 \<or> x = 1)"

definition bdim :: "nat \<Rightarrow> nat \<Rightarrow> nat" where
  "bdim x y = (if x = y \<or> y = 1 then x else y)"

definition bi :: "nat \<Rightarrow> nat \<Rightarrow> nat" where
  "bi d i = (if d = 1 then 0 else i)"

definition tadd :: "tensor \<Rightarrow> tensor \<Rightarrow> error + tensor" where
  "tadd a b = bop (+) a b"

definition tsub :: "tensor \<Rightarrow> tensor \<Rightarrow> error + tensor" where
  "tsub a b = bop (-) a b"

definition tmul :: "tensor \<Rightarrow> tensor \<Rightarrow> error + tensor" where
  "tmul a b = bop (*) a b"

definition tdiv :: "tensor \<Rightarrow> tensor \<Rightarrow> error + tensor" where
  "tdiv a b = (if 0 \<in> set (data b) then Inl NonFinite else bop (/) a b)"

text \<open>A Python float times a tensor.\<close>

definition smul :: "real \<Rightarrow> tensor \<Rightarrow> tensor" where
  "smul c a = Tensor (shape a) (map ((*) c) (data a))"

subsection \<open>The torch operations of \<^verbatim>\<open>module.py\<close>\<close>

definition torch_eye :: "nat \<Rightarrow> tensor" where
  "torch_eye n = mk2 n n (\<lambda>i j. if i = j then 1 else 0)"

definition torch_zeros2 :: "nat \<Rightarrow> nat \<Rightarrow> tensor" where
  "torch_zeros2 n c = mk2 n c (\<lambda>i j. 0)"

definition zeros_like :: "tensor \<Rightarrow> tensor" where
  "zeros_like a = Tensor (shape a) (map (\<lambda>x. 0) (data a))"

text \<open>\<^verbatim>\<open>Tensor.t()\<close>: a tensor of at most one axis is returned as it is, a matrix is
  transposed, more than two axes raise.\<close>

definition tensor_t :: "tensor \<Rightarrow> error + tensor" where
  "tensor_t a =
     (if ndim a \<le> 1 then Inr a
      else if ndim a = 2 then Inr (mk2 (ncols a) (nrows a) (\<lambda>i j. get2 a j i))
      else Inl RuntimeError)"

text \<open>\<^verbatim>\<open>Tensor.mm\<close>: both operands are matrices and the inner sizes agree, or it raises.\<close>

definition mm :: "tensor \<Rightarrow> tensor \<Rightarrow> error + tensor" where
  "mm a b =
     (if ndim a = 2 \<and> ndim b = 2 \<and> ncols a = nrows b
      then Inr (mk2 (nrows a) (ncols b) (\<lambda>i j. \<Sum>k<ncols a. get2 a i k * get2 b k j))
      else Inl RuntimeError)"

text \<open>The argument \<^verbatim>\<open>v: Union[Tensor, float]\<close> of \<^verbatim>\<open>rls\<close>. \<^verbatim>\<open>torch.sqrt\<close> takes tensors only.\<close>

datatype tensor_or_float = PyFloat real | PyTensor tensor

fun torch_sqrt :: "tensor_or_float \<Rightarrow> error + tensor" where
  "torch_sqrt (PyFloat x) = Inl TypeError"
| "torch_sqrt (PyTensor a) =
     (if list_ex (\<lambda>x. x < 0) (data a) then Inl NonFinite
      else Inr (Tensor (shape a) (map sqrt (data a))))"

text \<open>\<^verbatim>\<open>torch.allclose(input, other)\<close> with its default tolerances
  \<^verbatim>\<open>rtol=1e-05, atol=1e-08\<close>: every entry has
  \<open>\<bar>input - other\<bar> \<le> atol + rtol * \<bar>other\<bar>\<close>.\<close>

definition isclose_real :: "real \<Rightarrow> real \<Rightarrow> bool" where
  "isclose_real x y = (\<bar>x - y\<bar> \<le> 1 / 10 ^ 8 + 1 / 10 ^ 5 * \<bar>y\<bar>)"

definition allclose :: "tensor \<Rightarrow> tensor \<Rightarrow> error + bool" where
  "allclose a b =
     (case bop (\<lambda>x y. if isclose_real x y then 1 else 0) a b of
        Inl e \<Rightarrow> Inl e
      | Inr r \<Rightarrow> Inr (list_all (\<lambda>z. z = 1) (data r)))"

subsection \<open>Cholesky factorisation and triangular solves\<close>

text \<open>\<^verbatim>\<open>linalg.cholesky\<close> returns the lower-triangular factor \<open>L\<close> with \<open>L L\<^sup>T = A\<close>, reading
  the lower triangle of \<open>A\<close> (the Cholesky-Banachiewicz recurrence), and raises when a
  pivot is not positive.\<close>

function chol :: "(nat \<Rightarrow> nat \<Rightarrow> real) \<Rightarrow> nat \<Rightarrow> nat \<Rightarrow> real" where
  "chol A i j =
     (if i < j then 0
      else if i = j then sqrt (A j j - (\<Sum>k<j. (chol A j k)\<^sup>2))
      else (A i j - (\<Sum>k<j. chol A i k * chol A j k)) / chol A j j)"
  by pat_completeness auto
termination
  by (relation "measure (\<lambda>(A, i, j). i + j)") auto

declare chol.simps [simp del]

definition chol_pivot :: "(nat \<Rightarrow> nat \<Rightarrow> real) \<Rightarrow> nat \<Rightarrow> real" where
  "chol_pivot A j = A j j - (\<Sum>k<j. (chol A j k)\<^sup>2)"

definition cholesky :: "tensor \<Rightarrow> error + tensor" where
  "cholesky a =
     (if ndim a < 2 then Inl RuntimeError
      else if ndim a > 2 then Inl Unmodelled
      else if nrows a \<noteq> ncols a then Inl RuntimeError
      else if list_all (\<lambda>j. 0 < chol_pivot (get2 a) j) [0..<nrows a]
           then Inr (mk2 (nrows a) (nrows a) (chol (get2 a)))
           else Inl LinAlgError)"

text \<open>Forward substitution: the solution \<open>X\<close> of \<open>L X = B\<close> for lower-triangular \<open>L\<close>.
  Backward substitution: the solution \<open>X\<close> of \<open>L\<^sup>T X = Z\<close>.\<close>

function fsub :: "(nat \<Rightarrow> nat \<Rightarrow> real) \<Rightarrow> (nat \<Rightarrow> nat \<Rightarrow> real) \<Rightarrow> nat \<Rightarrow> nat \<Rightarrow> real" where
  "fsub L B i j = (B i j - (\<Sum>k<i. L i k * fsub L B k j)) / L i i"
  by pat_completeness auto
termination
  by (relation "measure (\<lambda>(L, B, i, j). i)") auto

declare fsub.simps [simp del]

function bsub :: "(nat \<Rightarrow> nat \<Rightarrow> real) \<Rightarrow> (nat \<Rightarrow> nat \<Rightarrow> real) \<Rightarrow> nat \<Rightarrow> nat \<Rightarrow> nat \<Rightarrow> real" where
  "bsub L Z n i j = (Z i j - (\<Sum>k\<in>{Suc i..<n}. L k i * bsub L Z n k j)) / L i i"
  by pat_completeness auto
termination
  by (relation "measure (\<lambda>(L, Z, n, i, j). n - i)") auto

declare bsub.simps [simp del]

text \<open>\<^verbatim>\<open>B.triangular_solve(A, upper=False).solution\<close>: solves \<open>A X = B\<close> with the lower
  triangle of \<open>A\<close>.\<close>

definition triangular_solve :: "tensor \<Rightarrow> tensor \<Rightarrow> error + tensor" where
  "triangular_solve b a =
     (if ndim a < 2 \<or> ndim b < 2 then Inl RuntimeError
      else if ndim a > 2 \<or> ndim b > 2 then Inl Unmodelled
      else if nrows a \<noteq> ncols a \<or> nrows b \<noteq> nrows a then Inl RuntimeError
      else if list_ex (\<lambda>i. get2 a i i = 0) [0..<nrows a] then Inl NonFinite
      else Inr (mk2 (nrows b) (ncols b) (fsub (get2 a) (get2 b))))"

text \<open>\<^verbatim>\<open>g.cholesky_solve(L)\<close>: solves \<open>(L L\<^sup>T) X = g\<close> for the lower-triangular factor \<open>L\<close>,
  by a forward and a backward substitution.\<close>

definition cholesky_solve :: "tensor \<Rightarrow> tensor \<Rightarrow> error + tensor" where
  "cholesky_solve g l =
     (if ndim l < 2 \<or> ndim g < 2 then Inl RuntimeError
      else if ndim l > 2 \<or> ndim g > 2 then Inl Unmodelled
      else if nrows l \<noteq> ncols l \<or> nrows g \<noteq> nrows l then Inl RuntimeError
      else if list_ex (\<lambda>i. get2 l i i = 0) [0..<nrows l] then Inl NonFinite
      else Inr (mk2 (nrows g) (ncols g)
                  (bsub (get2 l) (fsub (get2 l) (get2 g)) (nrows l))))"

section \<open>\<^verbatim>\<open>module.py\<close>: the Bayesian linear regressor\<close>

text \<open>The feature module is a constructor argument (\<^verbatim>\<open>feature: Module\<close>): its forward pass
  and its attribute \<^verbatim>\<open>n_feature\<close>.\<close>

record feature_module =
  n_feature :: nat
  feature_forward :: "tensor \<Rightarrow> error + tensor"

record LinearRegression =
  feature :: feature_module
  n_output :: nat
  w_mean :: tensor
  w_chol :: tensor
  w_precision :: tensor

definition LinearRegression_init :: "feature_module \<Rightarrow> nat \<Rightarrow> LinearRegression" where
  "LinearRegression_init feat n_out =
     \<lparr> feature = feat, n_output = n_out,
       w_mean = torch_zeros2 (n_feature feat) n_out,
       w_chol = torch_eye (n_feature feat),
       w_precision = torch_eye (n_feature feat) \<rparr>"

text \<open>\<^verbatim>\<open>LinearRegression.rls\<close>, lines 66 to 78: everything up to the first assignment to
  \<^verbatim>\<open>self\<close>. The result is the pair \<open>(g, P + scaled_feat\<^sup>T scaled_feat)\<close>.\<close>

definition rls_gain ::
  "LinearRegression \<Rightarrow> tensor \<Rightarrow> tensor \<Rightarrow> tensor_or_float \<Rightarrow> real \<Rightarrow> error + (tensor \<times> tensor)" where
  "rls_gain self x target v diffusion =
     (case shape (w_precision self) of
        [] \<Rightarrow> Inl IndexError
      | n # _ \<Rightarrow>
          (let eye = torch_eye n; P = w_precision self in
           if diffusion = 0 then Inl ZeroDivisionError
           else
             and_then (tadd P (smul (1 / diffusion) eye)) (\<lambda>A.
             and_then (cholesky A) (\<lambda>L.
             and_then (triangular_solve P L) (\<lambda>H.
             and_then (tensor_t H) (\<lambda>Ht.
             and_then (mm Ht H) (\<lambda>HtH.
             and_then (tsub P HtH) (\<lambda>P.
             and_then (feature_forward (feature self) x) (\<lambda>feat.
             and_then (torch_sqrt v) (\<lambda>s.
             and_then (tdiv feat s) (\<lambda>scaled_feat.
             and_then (tdiv target s) (\<lambda>scaled_target.
             and_then (mm P (w_mean self)) (\<lambda>Pm.
             and_then (tensor_t scaled_feat) (\<lambda>sft.
             and_then (mm sft scaled_target) (\<lambda>ft.
             and_then (tadd Pm ft) (\<lambda>g.
             and_then (mm sft scaled_feat) (\<lambda>ff.
             and_then (tadd P ff) (\<lambda>W. Inr (g, W)))))))))))))))))))"

text \<open>\<^verbatim>\<open>LinearRegression.rls\<close>: the precision is stored before the symmetry assertion, the
  mean after it.\<close>

definition rls ::
  "LinearRegression \<Rightarrow> tensor \<Rightarrow> tensor \<Rightarrow> tensor_or_float \<Rightarrow> real \<Rightarrow> (error + unit) \<times> LinearRegression" where
  "rls self x target v diffusion =
     (case rls_gain self x target v diffusion of
        Inl e \<Rightarrow> (Inl e, self)
      | Inr (g, W) \<Rightarrow>
          (let self1 = self\<lparr>w_precision := W\<rparr> in
           case and_then (tensor_t W) (allclose W) of
             Inl e \<Rightarrow> (Inl e, self1)
           | Inr ok \<Rightarrow>
               if \<not> ok then (Inl AssertionError, self1)
               else
                 (case and_then (cholesky W) (cholesky_solve g) of
                    Inl e \<Rightarrow> (Inl e, self1)
                  | Inr m \<Rightarrow> (Inr (), self1\<lparr>w_mean := m\<rparr>))))"





section \<open>\<^verbatim>\<open>model.py\<close>: likelihood, dynamics and the filter\<close>

text \<open>\<^verbatim>\<open>functional.mse_loss(input, target, reduction='none')\<close>: the squared difference,
  entry by entry, of the two tensors broadcast against each other.\<close>

definition mse_loss :: "tensor \<Rightarrow> tensor \<Rightarrow> error + tensor" where
  "mse_loss a b = bop (\<lambda>x y. (x - y)\<^sup>2) a b"

definition torch_exp :: "tensor \<Rightarrow> tensor" where
  "torch_exp a = Tensor (shape a) (map exp (data a))"

definition tneg :: "tensor \<Rightarrow> tensor" where
  "tneg a = Tensor (shape a) (map uminus (data a))"

text \<open>\<^verbatim>\<open>Tensor.sum(-1)\<close> sums over the last axis; \<^verbatim>\<open>Tensor.mean()\<close> is the mean of all
  entries, a tensor without axes (\<^verbatim>\<open>nan\<close> for a tensor without entries).\<close>

definition sum_last :: "tensor \<Rightarrow> tensor" where
  "sum_last a =
     (case rev (shape a) of
        [] \<Rightarrow> a
      | c # rs \<Rightarrow> Tensor (rev rs) (map (\<lambda>i. \<Sum>j<c. data a ! (i * c + j)) [0..<prod_list rs]))"

definition tmean :: "tensor \<Rightarrow> error + tensor" where
  "tmean a =
     (if data a = [] then Inl NonFinite
      else Inr (Tensor [] [sum_list (data a) / real (length (data a))]))"

text \<open>\<^verbatim>\<open>GaussianLikelihood\<close>: the parameter \<^verbatim>\<open>logvar\<close> is registered as \<^verbatim>\<open>torch.zeros(1)\<close>.\<close>

record GaussianLikelihood =
  gl_logvar :: tensor

definition GaussianLikelihood_init :: GaussianLikelihood where
  "GaussianLikelihood_init = \<lparr> gl_logvar = Tensor [1] [0] \<rparr>"

definition GaussianLikelihood_loss :: "GaussianLikelihood \<Rightarrow> tensor \<Rightarrow> tensor \<Rightarrow> error + tensor" where
  "GaussianLikelihood_loss self eta target =
     and_then (mse_loss eta target) (\<lambda>mse.
       if ndim mse \<noteq> 2 then Inl AssertionError
       else
         (let p = torch_exp (tneg (gl_logvar self)) in
          and_then (tmul mse p) (\<lambda>mp.
          and_then (tadd mp (gl_logvar self)) (\<lambda>q.
            (let nll = smul (1 / 2) q in tmean (sum_last nll))))))"

subsection \<open>The dynamics: \<^verbatim>\<open>LinearRegression.forward\<close> and \<^verbatim>\<open>RBFLDS.forward\<close>\<close>

text \<open>\<^verbatim>\<open>torch.atleast_2d\<close> gives a tensor without axes the shape \<open>[1, 1]\<close>, a vector of \<open>n\<close>
  entries the shape \<open>[1, n]\<close>, and returns any other tensor as it is.\<close>

definition atleast_2d :: "tensor \<Rightarrow> tensor" where
  "atleast_2d a =
     (if ndim a = 0 then Tensor [1, 1] (data a)
      else if ndim a = 1 then Tensor (1 # shape a) (data a)
      else a)"

text \<open>\<^verbatim>\<open>torch.cat((a, b), dim=-1)\<close>: the sizes of all axes but the last agree, or it raises; an
  empty vector (shape \<open>[0]\<close>) is skipped, as torch does.\<close>

definition cat_last :: "tensor \<Rightarrow> tensor \<Rightarrow> error + tensor" where
  "cat_last a b =
     (if shape a = [0] then Inr b
      else if shape b = [0] then Inr a
      else if ndim a = 0 \<or> ndim b = 0 \<or> butlast (shape a) \<noteq> butlast (shape b)
           then Inl RuntimeError
      else
        (let ca = last (shape a); cb = last (shape b); c = ca + cb in
         Inr (Tensor (butlast (shape a) @ [c])
                (map (\<lambda>k. if k mod c < ca then data a ! (k div c * ca + k mod c)
                           else data b ! (k div c * cb + (k mod c - ca)))
                     [0..<prod_list (butlast (shape a)) * c]))))"

text \<open>\<^verbatim>\<open>functional.linear(input, weight)\<close> is \<open>input weight\<^sup>T\<close> on the last axis of the input.\<close>

definition linear :: "tensor \<Rightarrow> tensor \<Rightarrow> error + tensor" where
  "linear inp weight =
     (if ndim weight = 1 then Inl Unmodelled
      else if ndim weight \<noteq> 2 \<or> ndim inp = 0 \<or> last (shape inp) \<noteq> ncols weight
           then Inl RuntimeError
      else
        (let out = nrows weight; inn = ncols weight in
         Inr (Tensor (butlast (shape inp) @ [out])
                (map (\<lambda>k. \<Sum>m<inn. data inp ! (k div out * inn + m) * get2 weight (k mod out) m)
                     [0..<prod_list (butlast (shape inp)) * out]))))"

text \<open>\<^verbatim>\<open>torch.randn_like(w)\<close>: the entries drawn, \<open>eps\<close>, are an argument of the model; the
  tensor has the shape of \<open>w\<close>.\<close>

definition randn_like :: "tensor \<Rightarrow> real list \<Rightarrow> tensor" where
  "randn_like a eps = Tensor (shape a) eps"

text \<open>\<^verbatim>\<open>LinearRegression.forward\<close>, lines 49 to 54 (the weight that is used) and the whole
  method.\<close>

definition LinearRegression_weight :: "LinearRegression \<Rightarrow> bool \<Rightarrow> real list \<Rightarrow> error + tensor" where
  "LinearRegression_weight self sampling eps =
     (let w = w_mean self in
      if sampling then and_then (mm (w_chol self) (randn_like w eps)) (\<lambda>n. tadd w n)
      else Inr w)"

definition LinearRegression_forward ::
  "LinearRegression \<Rightarrow> tensor \<Rightarrow> bool \<Rightarrow> real list \<Rightarrow> error + tensor" where
  "LinearRegression_forward self x sampling eps =
     and_then (feature_forward (feature self) x) (\<lambda>feat.
     and_then (LinearRegression_weight self sampling eps) (\<lambda>w.
     and_then (tensor_t w) (\<lambda>wt. linear feat wt)))"

text \<open>\<^verbatim>\<open>RBFLDS\<close>. Its regressor \<^verbatim>\<open>linreg\<close> is taken to be the \<^verbatim>\<open>LinearRegression\<close> of
  \<^verbatim>\<open>module.py\<close>, the only regressor class of the sources.\<close>

record RBFLDS =
  linreg :: LinearRegression
  rbf_logvar :: tensor

definition RBFLDS_forward ::
  "RBFLDS \<Rightarrow> tensor \<Rightarrow> tensor option \<Rightarrow> bool \<Rightarrow> real list \<Rightarrow> error + tensor" where
  "RBFLDS_forward self x u sampling eps =
     and_then (case u of None \<Rightarrow> Inr x | Some u' \<Rightarrow> cat_last x (atleast_2d u')) (\<lambda>xu.
     and_then (LinearRegression_forward (linreg self) xu sampling eps) (\<lambda>dx.
     tadd x dx))"

section \<open>\<^verbatim>\<open>online.py\<close>: feed, filter, fit and forecast\<close>

text \<open>An argument that may be \<^verbatim>\<open>None\<close> is a \<open>tensor option\<close>: \<open>Some t\<close> is an array-like
  value that \<^verbatim>\<open>torch.as_tensor\<close> turns into the tensor \<open>t\<close>; \<^verbatim>\<open>torch.as_tensor(None)\<close> raises
  (\<open>ConversionError\<close>: a TypeError or a RuntimeError of torch).\<close>

definition as_tensor :: "tensor option \<Rightarrow> error + tensor" where
  "as_tensor a = (case a of None \<Rightarrow> Inl ConversionError | Some t \<Rightarrow> Inr t)"

text \<open>\<^verbatim>\<open>torch.transpose(a, 1, 0)\<close> swaps the first two axes; \<open>unbind0\<close> is the iteration over the
  first axis of a tensor; \<open>expand_to\<close> is the value written by an assignment into a slot of a
  preallocated tensor (broadcast to the slot's shape, or the assignment raises);
  \<open>slice_from1\<close> is \<^verbatim>\<open>a[1:]\<close>; \<open>stack0\<close> and \<open>fill0\<close> assemble a preallocated tensor from its
  slots (\<open>fill0\<close>: slots never written stay 0).\<close>

definition transpose01 :: "tensor \<Rightarrow> error + tensor" where
  "transpose01 a =
     (case shape a of
        s0 # s1 # rest \<Rightarrow>
          (let r = prod_list rest in
           Inr (Tensor (s1 # s0 # rest)
                  (map (\<lambda>k. data a ! ((((k div r) mod s0) * s1 + k div (s0 * r)) * r + k mod r))
                       [0..<s1 * s0 * r])))
      | _ \<Rightarrow> Inl IndexError)"

definition unbind0 :: "tensor \<Rightarrow> error + tensor list" where
  "unbind0 a =
     (case shape a of
        [] \<Rightarrow> Inl TypeError
      | s0 # rest \<Rightarrow>
          Inr (map (\<lambda>i. Tensor rest (take (prod_list rest) (drop (i * prod_list rest) (data a))))
                   [0..<s0]))"

definition expand_to :: "nat list \<Rightarrow> tensor \<Rightarrow> error + tensor" where
  "expand_to s a =
     (if broadcast_shapes s (shape a) = Some s
      then Inr (Tensor s (map (\<lambda>k. data a ! bindex (shape a) (unravel s k)) [0..<prod_list s]))
      else Inl RuntimeError)"

definition slice_from1 :: "tensor \<Rightarrow> error + tensor" where
  "slice_from1 a =
     (case shape a of
        [] \<Rightarrow> Inl IndexError
      | s0 # rest \<Rightarrow> Inr (Tensor ((s0 - 1) # rest) (drop (prod_list rest) (data a))))"

definition stack0 :: "nat list \<Rightarrow> tensor list \<Rightarrow> tensor" where
  "stack0 s ts = Tensor (length ts # s) (concat (map data ts))"

text \<open>The switches \<^verbatim>\<open>decoder, encoder, dynamics, noise\<close> of \<^verbatim>\<open>feed\<close>, \<^verbatim>\<open>filter\<close> and \<^verbatim>\<open>fit\<close>.\<close>

record groups =
  opt_decoder :: bool
  opt_encoder :: bool
  opt_dynamics :: bool
  opt_noise :: bool

text \<open>The modules \<^verbatim>\<open>observation, decoder, dynamics, recognition, metric\<close> and the optimizers are
  not among the sources: they are parameters of the model. \<open>'p\<close> is the state of all
  parameters and optimizers, \<open>'n\<close> the random draws of one step. \<open>feed_step\<close> and \<open>fit_step\<close>
  are the parameters after \<^verbatim>\<open>backward\<close>, gradient clipping and the steps of the switched-on
  optimizers (and schedulers); \<open>decode\<close> is \<^verbatim>\<open>self.decoder.likelihood(self.decoder(x))\<close>.\<close>

record ('p, 'n) online_env =
  recognizer :: "'p \<Rightarrow> tensor \<Rightarrow> tensor \<Rightarrow> tensor \<times> tensor \<Rightarrow> error + tensor \<times> tensor"
  elbo :: "'p \<Rightarrow> tensor \<times> tensor \<Rightarrow> tensor \<times> tensor \<Rightarrow> tensor \<times> tensor \<Rightarrow> bool \<Rightarrow> bool \<Rightarrow> 'n
            \<Rightarrow> error + real \<times> real \<times> real"
  feed_step :: "'p \<Rightarrow> tensor \<times> tensor \<Rightarrow> tensor \<times> tensor \<Rightarrow> bool \<Rightarrow> bool \<Rightarrow> 'n \<Rightarrow> real \<Rightarrow> groups \<Rightarrow> 'p"
  fit_step :: "'p \<Rightarrow> tensor option \<Rightarrow> tensor option \<Rightarrow> (tensor \<times> tensor) option \<Rightarrow> bool
                \<Rightarrow> (nat \<Rightarrow> 'n) \<Rightarrow> real \<Rightarrow> groups \<Rightarrow> 'p"
  system :: "'p \<Rightarrow> tensor \<Rightarrow> tensor \<Rightarrow> error + tensor"
  state_noise_std :: "'p \<Rightarrow> tensor"
  decode :: "'p \<Rightarrow> tensor \<Rightarrow> error + tensor"

text \<open>The \<^verbatim>\<open>VJF\<close> of \<^verbatim>\<open>online.py\<close>: the configuration entries that the methods read, and the
  parameters.\<close>

record 'p online_VJF =
  xdim :: nat
  udim :: nat
  clip_gradients :: "real option"
  params :: 'p

text \<open>\<^verbatim>\<open>VJF.feed\<close>, lines 160 to 167: the posterior the step starts from.\<close>

definition feed_prior :: "nat \<Rightarrow> (tensor \<times> tensor) option \<Rightarrow> tensor \<Rightarrow> error + tensor \<times> tensor" where
  "feed_prior xd q0 y =
     (case shape y of
        [] \<Rightarrow> Inl IndexError
      | batch # _ \<Rightarrow>
          (case q0 of
             None \<Rightarrow> Inr (torch_zeros2 batch xd, torch_zeros2 batch xd)
           | Some q \<Rightarrow> Inr q))"

text \<open>\<^verbatim>\<open>VJF.feed\<close>. \<^verbatim>\<open>clip_grad_value_\<close> converts its bound with \<^verbatim>\<open>float\<close>, which raises for
  \<^verbatim>\<open>None\<close>.\<close>

definition feed ::
  "('p, 'n) online_env \<Rightarrow> 'p online_VJF \<Rightarrow> tensor \<times> tensor \<Rightarrow> (tensor \<times> tensor) option
   \<Rightarrow> groups \<Rightarrow> bool \<Rightarrow> bool \<Rightarrow> bool \<Rightarrow> 'n
   \<Rightarrow> (error + (tensor \<times> tensor) \<times> (real \<times> real \<times> real)) \<times> 'p online_VJF" where
  "feed env self obs q0 grp sample regularize optim n =
     (case obs of (y, u) \<Rightarrow>
      case and_then (feed_prior (xdim self) q0 y) (\<lambda>q0'.
           and_then (recognizer env (params self) y u q0') (\<lambda>q1.
           and_then (elbo env (params self) q0' q1 (y, u) sample regularize n) (\<lambda>l.
           Inr (q0', l)))) of
        Inl e \<Rightarrow> (Inl e, self)
      | Inr (q0', l) \<Rightarrow>
          (case (if optim
                 then (case clip_gradients self of
                         None \<Rightarrow> Inl TypeError
                       | Some c \<Rightarrow>
                           Inr (self\<lparr>params :=
                                  feed_step env (params self) q0' (y, u) sample regularize n c grp\<rparr>))
                 else Inr self) of
             Inl e \<Rightarrow> (Inl e, self)
           | Inr self1 \<Rightarrow>
               (case recognizer env (params self1) y u q0' of
                  Inl e \<Rightarrow> (Inl e, self1)
                | Inr q \<Rightarrow> (Inr (q, l), self1))))"

text \<open>\<^verbatim>\<open>VJF.filter\<close>: the loop over \<^verbatim>\<open>zip(ys, us)\<close> and the whole method.\<close>

fun filter_loop ::
  "('p, 'n) online_env \<Rightarrow> 'p online_VJF \<Rightarrow> nat list \<Rightarrow> (tensor \<times> tensor) list
   \<Rightarrow> (tensor \<times> tensor) option \<Rightarrow> groups \<Rightarrow> bool \<Rightarrow> bool \<Rightarrow> bool \<Rightarrow> (nat \<Rightarrow> 'n) \<Rightarrow> nat
   \<Rightarrow> (error + (tensor \<times> tensor) list \<times> (real \<times> real \<times> real) list) \<times> 'p online_VJF" where
  "filter_loop env self slot [] q0 grp sample regularize optim noise i = (Inr ([], []), self)"
| "filter_loop env self slot (obs # rest) q0 grp sample regularize optim noise i =
     (case feed env self obs q0 grp sample regularize optim (noise i) of
        (Inl e, self1) \<Rightarrow> (Inl e, self1)
      | (Inr (q, loss), self1) \<Rightarrow>
          (case and_then (expand_to slot (fst q)) (\<lambda>m.
                and_then (expand_to slot (snd q)) (\<lambda>l. Inr (m, l))) of
             Inl e \<Rightarrow> (Inl e, self1)
           | Inr ml \<Rightarrow>
               (case filter_loop env self1 slot rest (Some q) grp sample regularize optim noise (Suc i) of
                  (Inl e, self2) \<Rightarrow> (Inl e, self2)
                | (Inr (qs, losses), self2) \<Rightarrow> (Inr (ml # qs, loss # losses), self2))))"

definition fill0 :: "nat \<Rightarrow> nat list \<Rightarrow> tensor list \<Rightarrow> tensor" where
  "fill0 t slot ts =
     Tensor (t # slot) (concat (map data ts) @ replicate ((t - length ts) * prod_list slot) 0)"

definition online_filter ::
  "('p, 'n) online_env \<Rightarrow> 'p online_VJF \<Rightarrow> tensor option \<Rightarrow> tensor option
   \<Rightarrow> (tensor \<times> tensor) option \<Rightarrow> bool \<Rightarrow> groups \<Rightarrow> bool \<Rightarrow> bool \<Rightarrow> bool \<Rightarrow> (nat \<Rightarrow> 'n)
   \<Rightarrow> (error + tensor \<times> tensor \<times> (real \<times> real \<times> real) list) \<times> 'p online_VJF" where
  "online_filter env self y u q0 time_major grp sample regularize optim noise =
     (case and_then (as_tensor y) (\<lambda>ys.
           and_then (as_tensor u) (\<lambda>us.
           and_then (if \<not> time_major
                     then and_then (transpose01 ys) (\<lambda>ys'.
                          and_then (transpose01 us) (\<lambda>us'. Inr (ys', us')))
                     else Inr (ys, us)) (\<lambda>(ys, us).
           if ndim ys < 2 then Inl IndexError
           else and_then (unbind0 ys) (\<lambda>yl.
                and_then (unbind0 us) (\<lambda>ul. Inr (ys, zip yl ul)))))) of
        Inl e \<Rightarrow> (Inl e, self)
      | Inr (ys, obs) \<Rightarrow>
          (let slot = [shape ys ! 1, xdim self] in
           case filter_loop env self slot obs q0 grp sample regularize optim noise 0 of
             (Inl e, self1) \<Rightarrow> (Inl e, self1)
           | (Inr (qs, losses), self1) \<Rightarrow>
               (let mu = fill0 (shape ys ! 0) slot (map fst qs);
                    logvar = fill0 (shape ys ! 0) slot (map snd qs)
                in case (if \<not> time_major
                         then and_then (transpose01 mu) (\<lambda>mu'.
                              and_then (transpose01 logvar) (\<lambda>logvar'. Inr (mu', logvar')))
                         else Inr (mu, logvar)) of
                     Inl e \<Rightarrow> (Inl e, self1)
                   | Inr (mu, logvar) \<Rightarrow> (Inr (mu, logvar, losses), self1))))"


text \<open>\<^verbatim>\<open>VJF.fit\<close>. Line 493 reads the attribute \<^verbatim>\<open>shape\<close> of the argument \<^verbatim>\<open>y\<close> before anything
  converts it: a torch tensor or a numpy array has the attribute (\<open>HasShape\<close>); a nested list or
  tuple of numbers, which \<^verbatim>\<open>filter\<close> would convert with \<^verbatim>\<open>torch.as_tensor\<close>, has not
  (\<open>NestedList\<close>), and neither has \<^verbatim>\<open>None\<close>. \<open>array_value\<close> is the tensor that
  \<^verbatim>\<open>torch.as_tensor\<close> makes of either. \<open>fit_T\<close> is line 493 and \<open>fit_new_loss\<close> line 513 (the sum of
  an empty list is the integer 0, so that the division raises or the result has no \<^verbatim>\<open>item\<close>);
  the variable \<^verbatim>\<open>loss\<close> starts as \<^verbatim>\<open>nan\<close>, here \<open>None\<close>, and \<^verbatim>\<open>torch.isclose\<close> is false on it. The
  third component of the result is what the method prints.\<close>

datatype array_like = HasShape tensor | NestedList tensor

fun array_value :: "array_like \<Rightarrow> tensor" where
  "array_value (HasShape t) = t"
| "array_value (NestedList t) = t"

definition fit_T :: "array_like option \<Rightarrow> bool \<Rightarrow> error + nat" where
  "fit_T y time_major =
     (case y of
        None \<Rightarrow> Inl AttributeError
      | Some (NestedList t) \<Rightarrow> Inl AttributeError
      | Some (HasShape t) \<Rightarrow>
          (if time_major then (if ndim t < 1 then Inl IndexError else Inr (shape t ! 0))
           else (if ndim t < 2 then Inl IndexError else Inr (shape t ! 1))))"

definition fit_new_loss :: "(real \<times> real \<times> real) list \<Rightarrow> nat \<Rightarrow> error + real" where
  "fit_new_loss elbos T =
     (if elbos = [] then (if T = 0 then Inl ZeroDivisionError else Inl AttributeError)
      else if T = 0 then Inl NonFinite
      else Inr (- (\<Sum>(a, b, c)\<leftarrow>elbos. 0 + a + b + c) / real T))"

definition torch_isclose :: "real option \<Rightarrow> real \<Rightarrow> bool" where
  "torch_isclose loss new_loss =
     (case loss of None \<Rightarrow> False | Some l \<Rightarrow> isclose_real l new_loss)"

definition fit_groups :: "groups" where
  "fit_groups = \<lparr>opt_decoder = False, opt_encoder = False, opt_dynamics = False, opt_noise = False\<rparr>"

fun fit_loop ::
  "('p, 'n) online_env \<Rightarrow> tensor option \<Rightarrow> tensor option \<Rightarrow> (tensor \<times> tensor) option \<Rightarrow> bool
   \<Rightarrow> groups \<Rightarrow> nat \<Rightarrow> (nat \<Rightarrow> nat \<Rightarrow> 'n) \<Rightarrow> nat \<Rightarrow> nat \<Rightarrow> 'p online_VJF \<Rightarrow> real option
   \<Rightarrow> (tensor \<times> tensor) option
   \<Rightarrow> (error + tensor \<times> tensor \<times> real option) \<times> 'p online_VJF \<times> string list" where
  "fit_loop env y u q0 time_major grp T noise 0 i self loss prev =
     (case prev of
        None \<Rightarrow> (Inl UnboundLocalError, self, [''Maximum iteration reached.''])
      | Some (mu, logvar) \<Rightarrow> (Inr (mu, logvar, loss), self, [''Maximum iteration reached.'']))"
| "fit_loop env y u q0 time_major grp T noise (Suc k) i self loss prev =
     (case online_filter env self y u q0 time_major fit_groups True False False (noise i) of
        (Inl e, self1) \<Rightarrow> (Inl e, self1, [])
      | (Inr (mu, logvar, elbos), self1) \<Rightarrow>
          (case fit_new_loss elbos T of
             Inl e \<Rightarrow> (Inl e, self1, [])
           | Inr new_loss \<Rightarrow>
               if torch_isclose loss new_loss
               then (Inr (mu, logvar, loss), self1, [''Converged''])
               else
                 (case clip_gradients self1 of
                    None \<Rightarrow> (Inl TypeError, self1, [])
                  | Some c \<Rightarrow>
                      fit_loop env y u q0 time_major grp T noise k (Suc i)
                        (self1\<lparr>params :=
                           fit_step env (params self1) y u q0 time_major (noise i) c grp\<rparr>)
                        (Some new_loss) (Some (mu, logvar)))))"

definition online_fit ::
  "('p, 'n) online_env \<Rightarrow> 'p online_VJF \<Rightarrow> array_like option \<Rightarrow> tensor option
   \<Rightarrow> (tensor \<times> tensor) option \<Rightarrow> bool \<Rightarrow> nat \<Rightarrow> groups \<Rightarrow> (nat \<Rightarrow> nat \<Rightarrow> 'n)
   \<Rightarrow> (error + tensor \<times> tensor \<times> real option) \<times> 'p online_VJF \<times> string list" where
  "online_fit env self y u q0 time_major max_iter grp noise =
     (case fit_T y time_major of
        Inl e \<Rightarrow> (Inl e, self, [])
      | Inr T \<Rightarrow>
          fit_loop env (map_option array_value y) u q0 time_major grp T noise max_iter 0 self
            None None)"

text \<open>\<^verbatim>\<open>VJF.forecast\<close>. \<open>eps i\<close> are the entries \<^verbatim>\<open>torch.randn_like\<close> draws in step \<open>i\<close>;
  \<open>forecast_step\<close> is the body of the loop (lines 554 and 555), the value written to
  \<^verbatim>\<open>x[i+1]\<close>.\<close>

definition forecast_step ::
  "('p, 'n) online_env \<Rightarrow> 'p \<Rightarrow> tensor \<Rightarrow> nat list \<Rightarrow> real list \<Rightarrow> tensor \<Rightarrow> error + tensor" where
  "forecast_step env p u slot eps_i xi =
     and_then (system env p xi u) (\<lambda>m.
     and_then (tmul (randn_like m eps_i) (state_noise_std env p)) (\<lambda>n.
     and_then (tadd m n) (\<lambda>v.
     expand_to slot v)))"

fun forecast_loop ::
  "('p, 'n) online_env \<Rightarrow> 'p \<Rightarrow> tensor \<Rightarrow> nat list \<Rightarrow> (nat \<Rightarrow> real list) \<Rightarrow> nat \<Rightarrow> nat
   \<Rightarrow> tensor list \<Rightarrow> error + tensor list" where
  "forecast_loop env p u slot eps 0 i x = Inr x"
| "forecast_loop env p u slot eps (Suc k) i x =
     and_then (forecast_step env p u slot (eps i) (x ! i)) (\<lambda>xi.
     forecast_loop env p u slot eps k (Suc i) (x @ [xi]))"

definition forecast ::
  "('p, 'n) online_env \<Rightarrow> 'p online_VJF \<Rightarrow> tensor \<Rightarrow> nat \<Rightarrow> bool \<Rightarrow> (nat \<Rightarrow> real list)
   \<Rightarrow> error + tensor \<times> tensor" where
  "forecast env self x0 step inclusive eps =
     (let x0 = atleast_2d x0;
          sz = shape x0 ! 0;
          slot = [sz, xdim self];
          u = torch_zeros2 sz (udim self)
      in and_then (expand_to slot x0) (\<lambda>x0'.
         and_then (forecast_loop env (params self) u slot eps step 0 [x0']) (\<lambda>xs.
         (let x = stack0 slot xs in
          and_then (decode env (params self) x) (\<lambda>y.
          if \<not> inclusive
          then and_then (slice_from1 x) (\<lambda>x'.
               and_then (slice_from1 y) (\<lambda>y'. Inr (x', y')))
          else Inr (x, y))))))"

section \<open>\<^verbatim>\<open>model.py\<close>: the class \<^verbatim>\<open>VJF\<close>\<close>

text \<open>\<^verbatim>\<open>DiagonalGaussian\<close> is a named pair (mean, logvar); \<^verbatim>\<open>detach\<close> keeps the values.\<close>

datatype DiagonalGaussian = DiagonalGaussian (q_mean: tensor) (q_logvar: tensor)

definition detach :: "DiagonalGaussian \<Rightarrow> DiagonalGaussian" where
  "detach q = (case q of DiagonalGaussian mean logvar \<Rightarrow> DiagonalGaussian mean logvar)"

text \<open>Modelled from the spec: \<^verbatim>\<open>reparametrize\<close> is imported from \<^verbatim>\<open>util\<close>, which is not among the
  sources. The spec: "draws \<^verbatim>\<open>mean + exp(0.5*logvar) * standard_normal_noise\<close>, same shape as
  mean". The entries drawn are the argument \<open>eps\<close>.\<close>

definition reparametrize :: "DiagonalGaussian \<Rightarrow> real list \<Rightarrow> error + tensor" where
  "reparametrize q eps =
     and_then (tmul (torch_exp (smul (1 / 2) (q_logvar q))) (randn_like (q_mean q) eps)) (\<lambda>n.
     tadd (q_mean q) n)"

text \<open>\<^verbatim>\<open>Tensor.tile(reps)\<close> with two repetition counts, for a tensor of at most two axes.\<close>

definition tile :: "tensor \<Rightarrow> nat \<times> nat \<Rightarrow> error + tensor" where
  "tile a reps =
     (if ndim a > 2 then Inl Unmodelled
      else
        (let a2 = atleast_2d a in
         Inr (mk2 (nrows a2 * fst reps) (ncols a2 * snd reps)
                (\<lambda>i j. get2 a2 (i mod nrows a2) (j mod ncols a2)))))"

text \<open>The \<^verbatim>\<open>VJF\<close> of \<^verbatim>\<open>model.py\<close>: its parameters \<^verbatim>\<open>mean\<close> and \<^verbatim>\<open>logvar\<close> (registered as
  \<^verbatim>\<open>torch.zeros(xdim)\<close>) and, in \<open>modules\<close>, the state of the modules it is constructed from
  (likelihood, transition, recognition), of its decoder and of its optimizer.\<close>

record 'm VJF =
  mean :: tensor
  logvar :: tensor
  modules :: 'm

definition VJF_init :: "nat \<Rightarrow> 'm \<Rightarrow> 'm VJF" where
  "VJF_init xd m = \<lparr>mean = Tensor [xd] (replicate xd 0), logvar = Tensor [xd] (replicate xd 0),
                    modules = m\<rparr>"

text \<open>The two draws of one step (for \<open>xs\<close> and for \<open>xt\<close>), and what the gradient of one step's loss
  is computed from: the arguments of \<^verbatim>\<open>filter\<close> and the draws.\<close>

type_synonym draws = "real list \<times> real list"

type_synonym loss_inputs = "tensor option \<times> tensor option \<times> DiagonalGaussian option \<times> draws"

text \<open>The modules are constructor arguments (\<^verbatim>\<open>likelihood, transition, recognition: Module\<close>);
  \<^verbatim>\<open>gaussian_entropy\<close> is imported from \<^verbatim>\<open>functional\<close>, which is not among the sources; the
  optimizer is torch's. They are parameters of the model. The three losses are tensors
  without axes, here reals. \<open>optimizer_step\<close> is the object after \<^verbatim>\<open>zero_grad\<close>, \<^verbatim>\<open>backward\<close> of
  the mean of the losses of the given steps, and \<^verbatim>\<open>optimizer.step\<close>.\<close>

record 'm vjf_env =
  transition :: "'m \<Rightarrow> tensor \<Rightarrow> tensor option \<Rightarrow> error + tensor"
  recognition :: "'m \<Rightarrow> tensor \<Rightarrow> tensor \<Rightarrow> error + DiagonalGaussian"
  decoder :: "'m \<Rightarrow> tensor \<Rightarrow> error + tensor"
  likelihood_loss :: "'m \<Rightarrow> tensor \<Rightarrow> tensor \<Rightarrow> error + real"
  transition_loss :: "'m \<Rightarrow> tensor \<Rightarrow> tensor \<Rightarrow> error + real"
  entropy :: "DiagonalGaussian \<Rightarrow> error + real"
  optimizer_step :: "'m VJF \<Rightarrow> loss_inputs list \<Rightarrow> 'm VJF"

text \<open>\<^verbatim>\<open>VJF.prior\<close>, \<^verbatim>\<open>VJF.forward\<close>, \<^verbatim>\<open>VJF.loss\<close> (with \<^verbatim>\<open>components=False\<close>) and \<^verbatim>\<open>VJF.filter\<close>.\<close>

definition VJF_prior :: "'m VJF \<Rightarrow> tensor \<Rightarrow> error + DiagonalGaussian" where
  "VJF_prior self y =
     (if ndim y \<noteq> 2 then Inl AssertionError
      else
        (let n_batch = shape y ! 0;
             mean' = atleast_2d (mean self);
             logvar' = atleast_2d (logvar self)
         in and_then (if shape mean' ! 0 = 1 then tile mean' (n_batch, 1) else Inr mean') (\<lambda>mean'.
            and_then (if shape logvar' ! 0 = 1 then tile logvar' (n_batch, 1) else Inr logvar') (\<lambda>logvar'.
            if \<not> (shape mean' ! 0 = n_batch \<and> shape logvar' ! 0 = n_batch) then Inl AssertionError
            else Inr (DiagonalGaussian mean' logvar')))))"

definition VJF_forward ::
  "'m vjf_env \<Rightarrow> 'm VJF \<Rightarrow> tensor \<Rightarrow> DiagonalGaussian \<Rightarrow> tensor option \<Rightarrow> draws
   \<Rightarrow> error + tensor \<times> tensor \<times> DiagonalGaussian \<times> tensor \<times> tensor" where
  "VJF_forward env self y qs u eps =
     (let qs = detach qs in
      and_then (reparametrize qs (fst eps)) (\<lambda>xs.
      and_then (transition env (modules self) xs u) (\<lambda>pt.
      (let y = atleast_2d y in
       and_then (recognition env (modules self) y pt) (\<lambda>qt.
       and_then (reparametrize qt (snd eps)) (\<lambda>xt.
       and_then (decoder env (modules self) xt) (\<lambda>py.
       Inr (xs, pt, qt, xt, py))))))))"

definition VJF_loss ::
  "'m vjf_env \<Rightarrow> 'm VJF \<Rightarrow> tensor \<Rightarrow> tensor \<Rightarrow> tensor \<Rightarrow> DiagonalGaussian \<Rightarrow> tensor \<Rightarrow> tensor
   \<Rightarrow> bool \<Rightarrow> error + real" where
  "VJF_loss env self y xs pt qt xt py full =
     (if full then Inl NotImplementedError
      else
        and_then (likelihood_loss env (modules self) py y) (\<lambda>l_recon.
        and_then (transition_loss env (modules self) pt xt) (\<lambda>l_dynamics.
        and_then (entropy env qt) (\<lambda>h.
        Inr (l_recon - h + l_dynamics)))))"

definition VJF_filter ::
  "'m vjf_env \<Rightarrow> 'm VJF \<Rightarrow> tensor option \<Rightarrow> tensor option \<Rightarrow> DiagonalGaussian option \<Rightarrow> bool
   \<Rightarrow> draws \<Rightarrow> (error + DiagonalGaussian \<times> real) \<times> 'm VJF" where
  "VJF_filter env self y u qs update eps =
     (case and_then (as_tensor y) (\<lambda>y'.
           (let y' = atleast_2d y' in
            and_then (case u of None \<Rightarrow> Inr None
                      | Some u' \<Rightarrow> and_then (as_tensor (Some u')) (\<lambda>u'. Inr (Some (atleast_2d u')))) (\<lambda>u'.
            and_then (case qs of None \<Rightarrow> VJF_prior self y' | Some q \<Rightarrow> Inr q) (\<lambda>qs'.
            and_then (VJF_forward env self y' qs' u' eps) (\<lambda>(xs, pt, qt, xt, py).
            and_then (VJF_loss env self y' xs pt qt xt py False) (\<lambda>loss.
            Inr (qt, loss))))))) of
        Inl e \<Rightarrow> (Inl e, self)
      | Inr r \<Rightarrow> (Inr r, if update then optimizer_step env self [(y, u, qs, eps)] else self))"

text \<open>\<^verbatim>\<open>VJF.fit\<close>: \<^verbatim>\<open>itertools.zip_longest\<close> pads the shorter sequence with \<^verbatim>\<open>None\<close>
  (\<open>fit_pairs\<close> is what the inner loop runs over: with \<^verbatim>\<open>u = None\<close> the list \<^verbatim>\<open>[None]\<close> takes the
  place of the controls); \<open>fit_pass\<close> is the inner loop over the sequence, \<open>VJF_fit_loop\<close> the loop over \<^verbatim>\<open>range(max_iter)\<close>. The third
  component of the result is what the method prints: nothing.\<close>

fun zip_longest :: "'a list \<Rightarrow> 'b list \<Rightarrow> ('a option \<times> 'b option) list" where
  "zip_longest [] [] = []"
| "zip_longest (x # xs) [] = (Some x, None) # zip_longest xs []"
| "zip_longest [] (y # ys) = (None, Some y) # zip_longest [] ys"
| "zip_longest (x # xs) (y # ys) = (Some x, Some y) # zip_longest xs ys"

fun fit_pass ::
  "'m vjf_env \<Rightarrow> 'm VJF \<Rightarrow> (tensor option \<times> tensor option) list \<Rightarrow> DiagonalGaussian option
   \<Rightarrow> (nat \<Rightarrow> draws) \<Rightarrow> nat
   \<Rightarrow> (error + DiagonalGaussian list \<times> real list \<times> loss_inputs list) \<times> 'm VJF" where
  "fit_pass env self [] q eps t = (Inr ([], [], []), self)"
| "fit_pass env self ((yt, ut) # rest) q eps t =
     (case VJF_filter env self yt ut q False (eps t) of
        (Inl e, self1) \<Rightarrow> (Inl e, self1)
      | (Inr (q', loss), self1) \<Rightarrow>
          (case fit_pass env self1 rest (Some q') eps (Suc t) of
             (Inl e, self2) \<Rightarrow> (Inl e, self2)
           | (Inr (q_seq, losses, inputs), self2) \<Rightarrow>
               (Inr (q' # q_seq, loss # losses, (yt, ut, q, eps t) # inputs), self2)))"

definition fit_pairs :: "tensor \<Rightarrow> tensor option \<Rightarrow> error + (tensor option \<times> tensor option) list" where
  "fit_pairs y u =
     and_then (unbind0 y) (\<lambda>ys.
     and_then (case u of None \<Rightarrow> Inr [None]
               | Some u' \<Rightarrow> and_then (unbind0 u') (\<lambda>us. Inr (map Some us))) (\<lambda>us.
     Inr (map (\<lambda>(yt, ut). (yt, case ut of None \<Rightarrow> None | Some v \<Rightarrow> v))
              (zip_longest ys us))))"

fun VJF_fit_loop ::
  "'m vjf_env \<Rightarrow> tensor \<Rightarrow> tensor option \<Rightarrow> (nat \<Rightarrow> nat \<Rightarrow> draws) \<Rightarrow> nat \<Rightarrow> nat \<Rightarrow> 'm VJF
   \<Rightarrow> DiagonalGaussian list option
   \<Rightarrow> (error + DiagonalGaussian list) \<times> 'm VJF \<times> string list" where
  "VJF_fit_loop env y u eps 0 i self q_seq =
     (case q_seq of
        None \<Rightarrow> (Inl UnboundLocalError, self, [])
      | Some qs \<Rightarrow> (Inr qs, self, []))"
| "VJF_fit_loop env y u eps (Suc k) i self q_seq =
     (case fit_pairs y u of
        Inl e \<Rightarrow> (Inl e, self, [])
      | Inr pairs \<Rightarrow>
          (case fit_pass env self pairs None (eps i) 0 of
             (Inl e, self1) \<Rightarrow> (Inl e, self1, [])
           | (Inr (qs, losses, inputs), self1) \<Rightarrow>
               if length losses = 0 then (Inl ZeroDivisionError, self1, [])
               else VJF_fit_loop env y u eps k (Suc i) (optimizer_step env self1 inputs) (Some qs)))"

definition VJF_fit ::
  "'m vjf_env \<Rightarrow> 'm VJF \<Rightarrow> tensor option \<Rightarrow> tensor option \<Rightarrow> nat \<Rightarrow> (nat \<Rightarrow> nat \<Rightarrow> draws)
   \<Rightarrow> (error + DiagonalGaussian list) \<times> 'm VJF \<times> string list" where
  "VJF_fit env self y u max_iter eps =
     (case and_then (as_tensor y) (\<lambda>y'. Inr (atleast_2d y')) of
        Inl e \<Rightarrow> (Inl e, self, [])
      | Inr y' \<Rightarrow> VJF_fit_loop env y' u eps max_iter 0 self None)"

section \<open>The iterations of the two \<^verbatim>\<open>fit\<close> loops, unrolled\<close>

text \<open>The object of \<^verbatim>\<open>online.py\<close> after \<open>i\<close> iterations of \<^verbatim>\<open>fit\<close> that did not stop, with the
  clipping bound \<open>c\<close>; and the object of \<^verbatim>\<open>model.py\<close> after \<open>i\<close> iterations of its \<^verbatim>\<open>fit\<close>. They
  state what the loops compute.\<close>

primrec online_fit_state ::
  "('p, 'n) online_env \<Rightarrow> tensor option \<Rightarrow> tensor option \<Rightarrow> (tensor \<times> tensor) option \<Rightarrow> bool
   \<Rightarrow> groups \<Rightarrow> real \<Rightarrow> (nat \<Rightarrow> nat \<Rightarrow> 'n) \<Rightarrow> 'p online_VJF \<Rightarrow> nat \<Rightarrow> 'p online_VJF" where
  "online_fit_state env y u q0 time_major grp c noise self 0 = self"
| "online_fit_state env y u q0 time_major grp c noise self (Suc i) =
     (online_fit_state env y u q0 time_major grp c noise self i)
       \<lparr>params := fit_step env
           (params (online_fit_state env y u q0 time_major grp c noise self i))
           y u q0 time_major (noise i) c grp\<rparr>"

primrec VJF_fit_state ::
  "'m vjf_env \<Rightarrow> (tensor option \<times> tensor option) list \<Rightarrow> (nat \<Rightarrow> nat \<Rightarrow> draws) \<Rightarrow> 'm VJF \<Rightarrow> nat
   \<Rightarrow> 'm VJF" where
  "VJF_fit_state env pairs eps self 0 = self"
| "VJF_fit_state env pairs eps self (Suc i) =
     (case fit_pass env (VJF_fit_state env pairs eps self i) pairs None (eps i) 0 of
        (Inl e, self1) \<Rightarrow> self1
      | (Inr (qs, losses, inputs), self1) \<Rightarrow> optimizer_step env self1 inputs)"

text \<open>The value of the variable \<^verbatim>\<open>loss\<close> of \<^verbatim>\<open>online.py\<close>'s \<^verbatim>\<open>fit\<close> at the start of iteration
  \<open>i\<close>, for the losses \<open>L 0, L 1, ...\<close> of the iterations: \<^verbatim>\<open>nan\<close> at first.\<close>

definition prev_loss :: "(nat \<Rightarrow> real) \<Rightarrow> nat \<Rightarrow> real option" where
  "prev_loss L i = (case i of 0 \<Rightarrow> None | Suc m \<Rightarrow> Some (L m))"

section \<open>Loading the modules\<close>

text \<open>A module is loaded by running its statements in order; it then binds the names its
  imports, classes and functions bound. \<open>ext m\<close> is what importing \<open>m\<close> does, for a library or a
  module of the package that is not among the sources. \<^verbatim>\<open>from m import a, b\<close> raises ImportError
  when \<open>m\<close> binds no such name. \<open>load_module_py\<close> is \<^verbatim>\<open>module.py\<close>: its imports (lines 1 to 9) and
  its two classes; \<open>load_model_py\<close> is \<^verbatim>\<open>model.py\<close>: its imports (lines 1 to 14, line 12 being
  \<^verbatim>\<open>from .module import bLinReg, RBF\<close>) and its classes and function; \<open>model_py_attr\<close> is the
  access to a name of \<^verbatim>\<open>model.py\<close>, which loads it first.\<close>

fun import_all :: "(string \<Rightarrow> error + unit) \<Rightarrow> string list \<Rightarrow> error + unit" where
  "import_all ext [] = Inr ()"
| "import_all ext (m # ms) = and_then (ext m) (\<lambda>_. import_all ext ms)"

definition import_from :: "string list \<Rightarrow> string list \<Rightarrow> error + unit" where
  "import_from bound names =
     (if list_all (\<lambda>n. n \<in> set bound) names then Inr () else Inl ImportError)"

definition load_module_py :: "(string \<Rightarrow> error + unit) \<Rightarrow> error + string list" where
  "load_module_py ext =
     and_then (import_all ext [''typing'', ''torch'', ''torch.nn'', ''.functional'', ''.kalman'',
                               ''.util'']) (\<lambda>_.
     Inr [''Union'', ''torch'', ''Tensor'', ''linalg'', ''Parameter'', ''Module'', ''functional'',
          ''rbf'', ''kalman'', ''symmetric'', ''RBF'', ''LinearRegression''])"

definition load_model_py :: "(string \<Rightarrow> error + unit) \<Rightarrow> error + string list" where
  "load_model_py ext =
     and_then (import_all ext [''itertools'', ''typing'', ''torch'', ''torch.nn'', ''torch.optim'',
                               ''torch.optim.lr_scheduler'', ''tqdm'', ''.functional'']) (\<lambda>_.
     and_then (load_module_py ext) (\<lambda>bound.
     and_then (import_from bound [''bLinReg'', ''RBF'']) (\<lambda>_.
     and_then (import_all ext [''.recognition'', ''.util'']) (\<lambda>_.
     Inr [''zip_longest'', ''Tuple'', ''Sequence'', ''Union'', ''torch'', ''Tensor'', ''Module'',
          ''Linear'', ''functional'', ''Parameter'', ''Adam'', ''ExponentialLR'', ''trange'',
          ''entropy'', ''bLinReg'', ''RBF'', ''DiagonalGaussian'', ''Recognition'',
          ''reparametrize'', ''GaussianLikelihood'', ''PoissonLikelihood'', ''detach'', ''VJF'',
          ''RBFLDS'']))))"

definition model_py_attr :: "(string \<Rightarrow> error + unit) \<Rightarrow> string \<Rightarrow> error + unit" where
  "model_py_attr ext name =
     and_then (load_model_py ext) (\<lambda>bound.
     if name \<in> set bound then Inr () else Inl AttributeError)"

subsection \<open>Ordinary least squares, as the specification names it\<close>


section \<open>Auxiliary facts\<close>

subsection \<open>Matrices\<close>


lemma shape_mk2: "shape (mk2 n c f) = [n, c]" by (simp add: mk2_def)
lemma nrows_mk2: "nrows (mk2 n c f) = n" by (simp add: mk2_def nrows_def)
lemma ncols_mk2: "ncols (mk2 n c f) = c" by (simp add: mk2_def ncols_def)

lemma get2_mk2: "i < n \<Longrightarrow> j < c \<Longrightarrow> get2 (mk2 n c f) i j = f i j"
proof -
  assume i: "i < n" and j: "j < c"
  have "i * c + j < n * c"
  proof -
    have "i * c + j < i * c + c" using j by simp
    also have "\<dots> = Suc i * c" by simp
    also have "\<dots> \<le> n * c" using i by (intro mult_le_mono1) simp
    finally show ?thesis .
  qed
  then show ?thesis using j by (simp add: get2_def ncols_mk2) (simp add: mk2_def)
qed

lemma mk2_cong: "(\<And>i j. i < n \<Longrightarrow> j < c \<Longrightarrow> f i j = g i j) \<Longrightarrow> mk2 n c f = mk2 n c g"
proof -
  assume h: "\<And>i j. i < n \<Longrightarrow> j < c \<Longrightarrow> f i j = g i j"
  have "\<And>k. k < n * c \<Longrightarrow> f (k div c) (k mod c) = g (k div c) (k mod c)"
  proof -
    fix k assume k: "k < n * c"
    then have c: "0 < c" by (cases c) auto
    have "k div c < n" using k c by (simp add: less_mult_imp_div_less)
    moreover have "k mod c < c" using c by simp
    ultimately show "f (k div c) (k mod c) = g (k div c) (k mod c)" by (rule h)
  qed
  then show ?thesis by (simp add: mk2_def)
qed

lemma broadcast_shapes_2d:
  "broadcast_shapes [n1, c1] [n2, c2] =
     (if bcompat n1 n2 \<and> bcompat c1 c2 then Some [bdim n1 n2, bdim c1 c2] else None)"
  by (auto simp: broadcast_shapes_def bdim_def bcompat_def)


lemma bop_2d:
  assumes a: "shape a = [n1, c1]" and b: "shape b = [n2, c2]"
    and ok: "bcompat n1 n2" "bcompat c1 c2"
  shows "bop f a b = Inr (mk2 (bdim n1 n2) (bdim c1 c2)
           (\<lambda>i j. f (get2 a (bi n1 i) (bi c1 j)) (get2 b (bi n2 i) (bi c2 j))))"
proof -
  let ?n = "bdim n1 n2" and ?c = "bdim c1 c2"
  have idx: "\<And>i j m d. bindex [m, d] [i, j] = bi m i * d + bi d j"
    by (simp add: bindex_def bi_def)
  show ?thesis
    using ok by (simp add: bop_def a b broadcast_shapes_2d mk2_def idx get2_def ncols_def)
qed


subsection \<open>Symmetry of the precision update\<close>

lemma and_then_Inr: "and_then m f = Inr y \<Longrightarrow> \<exists>x. m = Inr x \<and> f x = Inr y"
  by (cases m) auto













subsection \<open>Evaluation at concrete inputs\<close>






subsection \<open>The Gaussian likelihood\<close>

lemma bop_2d_scalar:
  assumes a: "shape a = [n, c]" and b: "shape b = [1]"
  shows "bop f a b = Inr (mk2 n c (\<lambda>i j. f (get2 a i j) (data b ! 0)))"
proof -
  have "broadcast_shapes [n, c] [1] = Some [n, c]"
    by (simp add: broadcast_shapes_def)
  moreover have "\<And>i j. bindex [1] [i, j] = 0" by (simp add: bindex_def)
  moreover have "\<And>k. k < n * c \<Longrightarrow> bindex [n, c] [k div c, k mod c] = k"
    by (auto simp: bindex_def less_mult_imp_div_less)
  ultimately show ?thesis
    by (simp add: bop_def a b mk2_def get2_def ncols_def)
qed

lemma data_mk2_nth: "i < n \<Longrightarrow> j < c \<Longrightarrow> data (mk2 n c f) ! (i * c + j) = f i j"
  using get2_mk2[of i n j c f] by (simp add: get2_def ncols_mk2)

lemma sum_last_mk2: "sum_last (mk2 n c f) = Tensor [n] (map (\<lambda>i. \<Sum>j<c. f i j) [0..<n])"
  by (simp add: sum_last_def shape_mk2 data_mk2_nth)

lemma sum_list_map_upt: "sum_list (map f [0..<n]) = (\<Sum>i<n. f i)"
  by (simp add: interv_sum_list_conv_sum_set_nat lessThan_atLeast0)

lemma smul_mk2: "smul c (mk2 n m f) = mk2 n m (\<lambda>i j. c * f i j)"
  by (simp add: smul_def mk2_def)

lemma bop_wf: "bop f a b = Inr r \<Longrightarrow> wf_tensor r"
  by (auto simp: bop_def wf_tensor_def split: option.splits)

lemma wf_2d_mk2:
  assumes "wf_tensor a" and "shape a = [n, c]"
  shows "a = mk2 n c (get2 a)"
proof -
  obtain s xs where a: "a = Tensor s xs" by (cases a)
  have s: "s = [n, c]" and l: "length xs = n * c" using assms by (simp_all add: a wf_tensor_def)
  have "map (\<lambda>k. xs ! (k div c * c + k mod c)) [0..<n * c] = map (\<lambda>k. xs ! k) [0..<n * c]"
    by simp
  also have "\<dots> = xs" using l map_nth[of xs] by simp
  finally show ?thesis by (simp add: a s mk2_def get2_def ncols_def)
qed

lemma GaussianLikelihood_loss_of_mse:
  assumes m: "mse_loss eta target = Inr mse" and sh: "shape mse = [b, d]" and b: "0 < b"
    and lv: "gl_logvar self = Tensor [1] [lv]"
  shows "GaussianLikelihood_loss self eta target
           = Inr (Tensor [] [(\<Sum>i<b. \<Sum>j<d. 1 / 2 * (get2 mse i j * exp (- lv) + lv)) / real b])"
proof -
  let ?m = "get2 mse"
  have wf: "wf_tensor mse" using m unfolding mse_loss_def by (rule bop_wf)
  have mk: "mse = mk2 b d ?m" by (rule wf_2d_mk2[OF wf sh])
  have nd: "ndim mse = 2" by (simp add: ndim_def sh)
  have p: "torch_exp (tneg (Tensor [1] [lv])) = Tensor [1] [exp (- lv)]"
    by (simp add: torch_exp_def tneg_def)
  have mp: "tmul mse (Tensor [1] [exp (- lv)]) = Inr (mk2 b d (\<lambda>i j. ?m i j * exp (- lv)))"
    unfolding tmul_def by (subst bop_2d_scalar[OF sh]) simp_all
  have q: "tadd (mk2 b d (\<lambda>i j. ?m i j * exp (- lv))) (Tensor [1] [lv])
             = Inr (mk2 b d (\<lambda>i j. ?m i j * exp (- lv) + lv))"
    unfolding tadd_def
    by (subst bop_2d_scalar[where n=b and c=d]) (auto simp: shape_mk2 get2_mk2 intro!: mk2_cong)
  have r: "tmean (sum_last (smul (1 / 2) (mk2 b d (\<lambda>i j. ?m i j * exp (- lv) + lv))))
             = Inr (Tensor [] [(\<Sum>i<b. \<Sum>j<d. 1 / 2 * (?m i j * exp (- lv) + lv)) / real b])"
    using b by (simp add: smul_mk2 sum_last_mk2 tmean_def sum_list_map_upt)
  have "GaussianLikelihood_loss self eta target
          = and_then (tmul mse (Tensor [1] [exp (- lv)])) (\<lambda>mp.
            and_then (tadd mp (Tensor [1] [lv])) (\<lambda>q. tmean (sum_last (smul (1 / 2) q))))"
    unfolding GaussianLikelihood_loss_def m lv p by (simp add: nd del: One_nat_def)
  also have "\<dots> = tmean (sum_last (smul (1 / 2) (mk2 b d (\<lambda>i j. ?m i j * exp (- lv) + lv))))"
    unfolding mp and_then.simps q ..
  finally show ?thesis unfolding r .
qed

lemma mse_loss_2d:
  assumes e: "shape eta = [b1, d1]" and t: "shape target = [b2, d2]"
    and c: "bcompat b1 b2" "bcompat d1 d2"
  shows "mse_loss eta target
           = Inr (mk2 (bdim b1 b2) (bdim d1 d2)
                   (\<lambda>i j. (get2 eta (bi b1 i) (bi d1 j) - get2 target (bi b2 i) (bi d2 j))\<^sup>2))"
  unfolding mse_loss_def by (rule bop_2d[OF e t c])

subsection \<open>The dynamics forward pass\<close>

lemma mk2_eq_Tensor:
  "(\<And>k. k < n * c \<Longrightarrow> g k = f (k div c) (k mod c))
   \<Longrightarrow> Tensor [n, c] (map g [0..<n * c]) = mk2 n c f"
  by (simp add: mk2_def)

lemma cat_last_2d:
  assumes a: "shape a = [n, ca]" and b: "shape b = [n, cb]"
  shows "cat_last a b
           = Inr (mk2 n (ca + cb) (\<lambda>i j. if j < ca then get2 a i j else get2 b i (j - ca)))"
  by (simp add: cat_last_def a b ndim_def mk2_def get2_def ncols_def Let_def)

lemma linear_t_2d:
  assumes f: "shape feat = [n, k]" and w: "shape w = [k, d]"
  shows "and_then (tensor_t w) (linear feat)
           = Inr (mk2 n d (\<lambda>i j. \<Sum>m<k. get2 feat i m * get2 w m j))"
proof -
  have t: "tensor_t w = Inr (mk2 d k (\<lambda>i j. get2 w j i))"
    by (simp add: tensor_t_def ndim_def w nrows_def ncols_def)
  have "linear feat (mk2 d k (\<lambda>i j. get2 w j i))
          = Inr (Tensor [n, d] (map (\<lambda>p. \<Sum>m<k. data feat ! (p div d * k + m)
                * get2 (mk2 d k (\<lambda>i j. get2 w j i)) (p mod d) m) [0..<n * d]))"
    by (simp add: linear_def ncols_mk2 nrows_mk2 shape_mk2 f ndim_def Let_def)
  also have "Tensor [n, d] (map (\<lambda>p. \<Sum>m<k. data feat ! (p div d * k + m)
                * get2 (mk2 d k (\<lambda>i j. get2 w j i)) (p mod d) m) [0..<n * d])
          = mk2 n d (\<lambda>i j. \<Sum>m<k. get2 feat i m * get2 w m j)"
  proof (rule mk2_eq_Tensor)
    fix p assume p: "p < n * d"
    then have "0 < d" by (cases d) auto
    then have "p mod d < d" by simp
    then show "(\<Sum>m<k. data feat ! (p div d * k + m) * get2 (mk2 d k (\<lambda>i j. get2 w j i)) (p mod d) m)
        = (\<Sum>m<k. get2 feat (p div d) m * get2 w m (p mod d))"
      by (intro sum.cong) (simp_all add: get2_mk2 get2_def[of feat] ncols_def f)
  qed
  finally show ?thesis by (simp add: t)
qed

lemma tadd_2d_same:
  assumes a: "shape a = [n, c]"
  shows "tadd a (mk2 n c g) = Inr (mk2 n c (\<lambda>i j. get2 a i j + g i j))"
proof -
  have c: "bcompat n n" "bcompat c c" by (simp_all add: bcompat_def)
  have bd: "bdim n n = n" "bdim c c = c" by (simp_all add: bdim_def)
  have i: "\<And>i. i < n \<Longrightarrow> bi n i = i" "\<And>j. j < c \<Longrightarrow> bi c j = j" by (auto simp: bi_def)
  show ?thesis
    unfolding tadd_def bop_2d[OF a shape_mk2 c] bd
    by (auto intro!: mk2_cong simp: get2_mk2 i)
qed

subsection \<open>Evaluation of the filter at concrete inputs\<close>

lemma ev_reparam0:
  "reparametrize (DiagonalGaussian (Tensor [1, 1] [0]) (Tensor [1, 1] [0])) [0] = Inr (Tensor [1, 1] [0])"
  by (simp add: reparametrize_def tmul_def tadd_def bop_def broadcast_shapes_def bindex_def
      torch_exp_def smul_def randn_like_def)

subsection \<open>The prior\<close>

lemma tile_row:
  "tile (Tensor [1, xd] d) (n, 1) = Inr (mk2 n xd (\<lambda>i j. d ! j))"
  by (auto simp: tile_def ndim_def atleast_2d_def nrows_def ncols_def get2_def intro!: mk2_cong)

lemma VJF_prior_tiled:
  assumes y: "shape y = [n, dy]" and m: "shape (mean self) = [xd]" and l: "shape (logvar self) = [xd]"
  shows "VJF_prior self y
           = Inr (DiagonalGaussian (mk2 n xd (\<lambda>i j. data (mean self) ! j))
                                   (mk2 n xd (\<lambda>i j. data (logvar self) ! j)))"
proof -
  have am: "atleast_2d (mean self) = Tensor [1, xd] (data (mean self))"
    and al: "atleast_2d (logvar self) = Tensor [1, xd] (data (logvar self))"
    by (simp_all add: atleast_2d_def ndim_def m l)
  show ?thesis
    unfolding VJF_prior_def am al Let_def
    by (simp add: y ndim_def tile_row shape_mk2 del: One_nat_def)
qed

subsection \<open>The forecast loop\<close>

lemma expand_to_shape:
  "expand_to s a = Inr b \<Longrightarrow> shape b = s \<and> length (data b) = prod_list s"
  by (auto simp: expand_to_def split: if_splits)

lemma expand_to_2d_same:
  assumes a: "shape a = [n, c]" and l: "length (data a) = n * c"
  shows "expand_to [n, c] a = Inr a"
proof -
  have b: "broadcast_shapes [n, c] [n, c] = Some [n, c]"
    by (simp add: broadcast_shapes_def)
  have i: "\<And>k. k < n * c \<Longrightarrow> bindex [n, c] [k div c, k mod c] = k"
    by (auto simp: bindex_def less_mult_imp_div_less)
  have "map (\<lambda>k. data a ! bindex [n, c] (unravel [n, c] k)) [0..<n * c] = map ((!) (data a)) [0..<n * c]"
    by (rule map_cong) (simp_all add: i)
  also have "\<dots> = data a" using l map_nth[of "data a"] by simp
  finally show ?thesis
    using a by (cases a) (simp add: expand_to_def b)
qed

lemma stack_length:
  "\<forall>t\<in>set ts. length (data t) = c
   \<Longrightarrow> length (data (Tensor (length ts # s) (concat (map data ts)))) = length ts * c"
  by (induction ts) simp_all

lemma forecast_loop_length:
  assumes step: "\<forall>i x. shape x = slot \<and> length (data x) = prod_list slot
                  \<longrightarrow> (\<exists>x'. forecast_step env p u slot (eps i) x = Inr x')"
  shows "length x = Suc i \<Longrightarrow> (\<forall>t\<in>set x. shape t = slot \<and> length (data t) = prod_list slot)
         \<Longrightarrow> \<exists>xs. forecast_loop env p u slot eps k i x = Inr (x @ xs) \<and> length xs = k
                  \<and> (\<forall>t\<in>set xs. shape t = slot \<and> length (data t) = prod_list slot)"
proof (induction k arbitrary: i x)
  case 0
  then show ?case by simp
next
  case (Suc k)
  have "x ! i \<in> set x" using Suc.prems(1) by simp
  then have xi: "shape (x ! i) = slot \<and> length (data (x ! i)) = prod_list slot"
    using Suc.prems(2) by blast
  with step obtain x' where x': "forecast_step env p u slot (eps i) (x ! i) = Inr x'" by blast
  then have sx': "shape x' = slot \<and> length (data x') = prod_list slot"
    by (auto simp: forecast_step_def dest!: and_then_Inr expand_to_shape)
  have "length (x @ [x']) = Suc (Suc i)" using Suc.prems(1) by simp
  moreover have "\<forall>t\<in>set (x @ [x']). shape t = slot \<and> length (data t) = prod_list slot"
    using Suc.prems(2) sx' by auto
  ultimately obtain xs where
    "forecast_loop env p u slot eps k (Suc i) (x @ [x']) = Inr ((x @ [x']) @ xs)" "length xs = k"
    "\<forall>t\<in>set xs. shape t = slot \<and> length (data t) = prod_list slot"
    using Suc.IH by blast
  then show ?case
    using x' sx' by (intro exI[of _ "x' # xs"]) simp
qed

lemma slice_stack0:
  "length (data t) = prod_list slot \<Longrightarrow> slice_from1 (stack0 slot (t # ts)) = Inr (stack0 slot ts)"
  by (simp add: slice_from1_def stack0_def)

lemma forecast_step_identity:
  assumes sys: "system env p = (\<lambda>x u. Inr x)" and std: "state_noise_std env p = Tensor [1] [c]"
    and x: "shape x = [n, d]"
  shows "\<exists>x'. forecast_step env p u [n, d] e x = Inr x'"
proof -
  have r: "shape (randn_like x e) = [n, d]" by (simp add: randn_like_def x)
  obtain g where g: "tmul (randn_like x e) (Tensor [1] [c]) = Inr (mk2 n d g)"
    unfolding tmul_def using bop_2d_scalar[OF r, of "Tensor [1] [c]"] by (simp del: One_nat_def)
  have "expand_to [n, d] (mk2 n d (\<lambda>i j. get2 x i j + g i j))
          = Inr (mk2 n d (\<lambda>i j. get2 x i j + g i j))"
    by (rule expand_to_2d_same) (simp_all add: mk2_def)
  then show ?thesis
    by (simp add: forecast_step_def sys std g tadd_2d_same[OF x] del: One_nat_def)
qed

subsection \<open>The fit loops\<close>

lemma feed_no_optim: "snd (feed env self obs q0 grp sample regularize False n) = self"
  by (auto simp: feed_def split: prod.splits sum.splits)

lemma filter_loop_no_optim:
  "snd (filter_loop env self slot obs q0 grp sample regularize False noise i) = self"
proof (induction obs arbitrary: q0 i)
  case Nil
  then show ?case by simp
next
  case (Cons ob obs)
  obtain r s where f: "feed env self ob q0 grp sample regularize False (noise i) = (r, s)"
    by (cases "feed env self ob q0 grp sample regularize False (noise i)")
  then have s: "s = self" using feed_no_optim[of env self ob q0 grp sample regularize "noise i"] by simp
  show ?case
  proof (cases r)
    case (Inl e)
    then show ?thesis using f s by simp
  next
    case (Inr ql)
    obtain q l where ql: "ql = (q, l)" by (cases ql)
    show ?thesis
      using Cons.IH[of "Some q" "Suc i"] f s Inr ql
      by (auto split: sum.splits prod.splits)
  qed
qed

lemma online_filter_no_optim:
  "snd (online_filter env self y u q0 time_major grp sample regularize False noise) = self"
proof -
  have "snd (case filter_loop env self slot obs q0 grp sample regularize False noise 0 of
               (Inl e, self1) \<Rightarrow> (Inl e, self1)
             | (Inr (qs, losses), self1) \<Rightarrow> g qs losses self1) = self"
    if "\<And>qs losses s. snd (g qs losses s) = s" for slot obs and g :: "_ \<Rightarrow> _ \<Rightarrow> _ \<Rightarrow> (error + tensor \<times> tensor \<times> (real \<times> real \<times> real) list) \<times> 'a online_VJF"
    using filter_loop_no_optim[of env self slot obs q0 grp sample regularize noise 0] that
    by (auto split: prod.splits sum.splits)
  then show ?thesis
    unfolding online_filter_def
    by (auto simp: Let_def split: sum.splits prod.splits)
qed

lemma clip_online_fit_state:
  "clip_gradients (online_fit_state env y u q0 tm grp c noise self i) = clip_gradients self"
  by (induction i) simp_all


lemma fit_loop_step:
  assumes clip: "clip_gradients self = Some c"
    and pass: "fst (online_filter env (online_fit_state env y u q0 tm grp c noise self i) y u q0 tm
                 fit_groups True False False (noise i)) = Inr (m, v, e)"
    and loss: "fit_new_loss e T = Inr l"
  shows "fit_loop env y u q0 tm grp T noise (Suc k) i
           (online_fit_state env y u q0 tm grp c noise self i) loss0 prev
         = (if torch_isclose loss0 l
            then (Inr (m, v, loss0), online_fit_state env y u q0 tm grp c noise self i,
                  [''Converged''])
            else fit_loop env y u q0 tm grp T noise k (Suc i)
                   (online_fit_state env y u q0 tm grp c noise self (Suc i))
                   (Some l) (Some (m, v)))"
proof -
  let ?S = "online_fit_state env y u q0 tm grp c noise self i"
  have "online_filter env ?S y u q0 tm fit_groups True False False (noise i)
          = (Inr (m, v, e), ?S)"
    using pass online_filter_no_optim[of env ?S y u q0 tm fit_groups True False "noise i"]
    by (metis prod.collapse)
  then show ?thesis
    by (simp add: loss clip clip_online_fit_state)
qed

lemma fit_loop_converges:
  assumes clip: "clip_gradients self = Some c"
    and pass: "\<forall>i\<le>j. fst (online_filter env (online_fit_state env y u q0 tm grp c noise self i)
                 y u q0 tm fit_groups True False False (noise i)) = Inr (M i, V i, E i)
               \<and> fit_new_loss (E i) T = Inr (L i)"
    and j: "j < n" "torch_isclose (prev_loss L j) (L j)"
    and first: "\<forall>m<j. \<not> torch_isclose (prev_loss L m) (L m)"
  shows "i \<le> j \<Longrightarrow> i + k = n \<Longrightarrow>
         fit_loop env y u q0 tm grp T noise k i
           (online_fit_state env y u q0 tm grp c noise self i) (prev_loss L i) prev
         = (Inr (M j, V j, prev_loss L j), online_fit_state env y u q0 tm grp c noise self j,
            [''Converged''])"
proof (induction k arbitrary: i prev)
  case 0
  then show ?case using j(1) by simp
next
  case (Suc k)
  have i: "i \<le> j" using Suc.prems by simp
  have p: "fst (online_filter env (online_fit_state env y u q0 tm grp c noise self i)
                 y u q0 tm fit_groups True False False (noise i)) = Inr (M i, V i, E i)"
    and l: "fit_new_loss (E i) T = Inr (L i)"
    using pass i by auto
  note st = fit_loop_step[OF clip p l, of k "prev_loss L i" prev]
  show ?case
  proof (cases "i = j")
    case True
    show ?thesis unfolding st using True j(2) by simp
  next
    case False
    then have "i < j" using Suc.prems(1) by simp
    then have nc: "\<not> torch_isclose (prev_loss L i) (L i)" using first by simp
    have "Suc i \<le> j" "Suc i + k = n" using \<open>i < j\<close> Suc.prems(2) by simp_all
    from Suc.IH[OF this, of "Some (M i, V i)"] show ?thesis
      unfolding st using nc by (simp add: prev_loss_def)
  qed
qed

lemma fit_loop_exhausts:
  assumes clip: "clip_gradients self = Some c"
    and pass: "\<forall>i<n. fst (online_filter env (online_fit_state env y u q0 tm grp c noise self i)
                 y u q0 tm fit_groups True False False (noise i)) = Inr (M i, V i, E i)
               \<and> fit_new_loss (E i) T = Inr (L i)"
    and never: "\<forall>m<n. \<not> torch_isclose (prev_loss L m) (L m)"
  shows "i + k = n \<Longrightarrow>
         fit_loop env y u q0 tm grp T noise k i
           (online_fit_state env y u q0 tm grp c noise self i) (prev_loss L i) prev
         = fit_loop env y u q0 tm grp T noise 0 n
           (online_fit_state env y u q0 tm grp c noise self n) (prev_loss L n)
           (if k = 0 then prev else Some (M (n - 1), V (n - 1)))"
proof (induction k arbitrary: i prev)
  case 0
  then show ?case by simp
next
  case (Suc k)
  have i: "i < n" using Suc.prems by simp
  have p: "fst (online_filter env (online_fit_state env y u q0 tm grp c noise self i)
                 y u q0 tm fit_groups True False False (noise i)) = Inr (M i, V i, E i)"
    and l: "fit_new_loss (E i) T = Inr (L i)"
    using pass i by auto
  note st = fit_loop_step[OF clip p l, of k "prev_loss L i" prev]
  have nc: "\<not> torch_isclose (prev_loss L i) (L i)" using never i by simp
  have "Suc i + k = n" using Suc.prems by simp
  from Suc.IH[OF this, of "Some (M i, V i)"]
  have "fit_loop env y u q0 tm grp T noise k (Suc i)
          (online_fit_state env y u q0 tm grp c noise self (Suc i)) (prev_loss L (Suc i))
          (Some (M i, V i))
        = fit_loop env y u q0 tm grp T noise 0 n
          (online_fit_state env y u q0 tm grp c noise self n) (prev_loss L n)
          (Some (M (n - 1), V (n - 1)))"
    using Suc.prems by (cases "k = 0") auto
  then show ?case unfolding st using nc by (simp add: prev_loss_def)
qed


lemma VJF_fit_loop_prints_nothing:
  "snd (snd (VJF_fit_loop env y u eps k i self q_seq)) = []"
  by (induction k arbitrary: i self q_seq) (auto split: option.splits sum.splits prod.splits)

lemma VJF_fit_prints_nothing: "snd (snd (VJF_fit env self y u max_iter eps)) = []"
  by (simp add: VJF_fit_def VJF_fit_loop_prints_nothing split: sum.splits)

lemma VJF_fit_loop_runs:
  assumes pairs: "fit_pairs y u = Inr pairs"
    and pass: "\<forall>i<n. \<exists>ls ins s1.
                 fit_pass env (VJF_fit_state env pairs eps self i) pairs None (eps i) 0
                   = (Inr (Q i, ls, ins), s1) \<and> ls \<noteq> []"
  shows "i + k = n \<Longrightarrow>
         VJF_fit_loop env y u eps k i (VJF_fit_state env pairs eps self i) q_seq
         = VJF_fit_loop env y u eps 0 n (VJF_fit_state env pairs eps self n)
             (if k = 0 then q_seq else Some (Q (n - 1)))"
proof (induction k arbitrary: i q_seq)
  case 0
  then show ?case by simp
next
  case (Suc k)
  have "i < n" using Suc.prems by simp
  with pass obtain ls ins s1 where
    p: "fit_pass env (VJF_fit_state env pairs eps self i) pairs None (eps i) 0
          = (Inr (Q i, ls, ins), s1)" and ls: "ls \<noteq> []"
    by blast
  have st: "VJF_fit_state env pairs eps self (Suc i) = optimizer_step env s1 ins"
    by (simp add: p)
  have "Suc i + k = n" using Suc.prems by simp
  from Suc.IH[OF this, of "Some (Q i)"]
  have "VJF_fit_loop env y u eps k (Suc i) (VJF_fit_state env pairs eps self (Suc i)) (Some (Q i))
        = VJF_fit_loop env y u eps 0 n (VJF_fit_state env pairs eps self n) (Some (Q (n - 1)))"
    using Suc.prems by (cases "k = 0") auto
  then show ?case
    using ls by (simp add: pairs p st[symmetric] del: VJF_fit_state.simps)
qed

subsection \<open>Evaluation of the two fit loops at concrete inputs\<close>

lemma ev_online_filter:
  "online_filter
     (\<lparr>recognizer = (\<lambda>p y u q. Inr q),
       elbo = (\<lambda>p q0 q obs s r n. Inr (0, 0, - real (min p 1))),
       feed_step = (\<lambda>p q0 obs s r n c g. p), fit_step = (\<lambda>p y u q0 t n c g. Suc p),
       system = (\<lambda>p x u. Inr x), state_noise_std = (\<lambda>p. Tensor [1] [1]),
       decode = (\<lambda>p x. Inr x)\<rparr> :: (nat, unit) online_env)
     \<lparr>xdim = 1, udim = 0, clip_gradients = Some 1, params = p\<rparr>
     (Some (Tensor [1, 1, 1] [0])) (Some (Tensor [1, 1, 1] [0])) None True fit_groups True False False n
   = (Inr (Tensor [1, 1, 1] [0], Tensor [1, 1, 1] [0], [(0, 0, - real (min p 1))]),
      \<lparr>xdim = 1, udim = 0, clip_gradients = Some 1, params = p\<rparr>)"
  by (simp add: online_filter_def as_tensor_def ndim_def unbind0_def feed_def feed_prior_def
      torch_zeros2_def mk2_def expand_to_def broadcast_shapes_def bindex_def fill0_def Let_def)

lemma ev_online_fit_state:
  "online_fit_state
     (\<lparr>recognizer = (\<lambda>p y u q. Inr q),
       elbo = (\<lambda>p q0 q obs s r n. Inr (0, 0, - real (min p 1))),
       feed_step = (\<lambda>p q0 obs s r n c g. p), fit_step = (\<lambda>p y u q0 t n c g. Suc p),
       system = (\<lambda>p x u. Inr x), state_noise_std = (\<lambda>p. Tensor [1] [1]),
       decode = (\<lambda>p x. Inr x)\<rparr> :: (nat, unit) online_env)
     y u q0 tm grp c noise \<lparr>xdim = 1, udim = 0, clip_gradients = Some 1, params = 0\<rparr> i
   = \<lparr>xdim = 1, udim = 0, clip_gradients = Some 1, params = i\<rparr>"
  by (induction i) simp_all


lemma ev_VJF_filter:
  "VJF_filter
     (\<lparr>transition = (\<lambda>m xs u. Inr xs), recognition = (\<lambda>m y pt. Inr (DiagonalGaussian pt pt)),
       decoder = (\<lambda>m xt. Inr xt), likelihood_loss = (\<lambda>m py y. Inr 0),
       transition_loss = (\<lambda>m pt xt. Inr 0), entropy = (\<lambda>q. Inr 0),
       optimizer_step = (\<lambda>s i. s\<lparr>modules := Suc (modules s)\<rparr>)\<rparr> :: nat vjf_env)
     \<lparr>mean = Tensor [1] [0], logvar = Tensor [1] [0], modules = k\<rparr>
     (Some (Tensor [1] [0])) None None False ([0], [0])
   = (Inr (DiagonalGaussian (Tensor [1, 1] [0]) (Tensor [1, 1] [0]), 0),
      \<lparr>mean = Tensor [1] [0], logvar = Tensor [1] [0], modules = k\<rparr>)"
  by (simp add: VJF_filter_def as_tensor_def atleast_2d_def ndim_def VJF_prior_def tile_def
      nrows_def ncols_def get2_def mk2_def VJF_forward_def detach_def VJF_loss_def
      reparametrize_def tmul_def tadd_def bop_def broadcast_shapes_def bindex_def
      torch_exp_def smul_def randn_like_def Let_def)

lemma ev_fit_pairs:
  "fit_pairs (atleast_2d (Tensor [1, 1] [0])) None = Inr [(Some (Tensor [1] [0]), None)]"
  by (simp add: fit_pairs_def atleast_2d_def ndim_def unbind0_def)

lemma ev_fit_pass:
  "fit_pass
     (\<lparr>transition = (\<lambda>m xs u. Inr xs), recognition = (\<lambda>m y pt. Inr (DiagonalGaussian pt pt)),
       decoder = (\<lambda>m xt. Inr xt), likelihood_loss = (\<lambda>m py y. Inr 0),
       transition_loss = (\<lambda>m pt xt. Inr 0), entropy = (\<lambda>q. Inr 0),
       optimizer_step = (\<lambda>s i. s\<lparr>modules := Suc (modules s)\<rparr>)\<rparr> :: nat vjf_env)
     \<lparr>mean = Tensor [1] [0], logvar = Tensor [1] [0], modules = k\<rparr>
     [(Some (Tensor [1] [0]), None)] None (\<lambda>t. ([0], [0])) 0
   = (Inr ([DiagonalGaussian (Tensor [1, 1] [0]) (Tensor [1, 1] [0])], [0],
           [(Some (Tensor [1] [0]), None, None, ([0], [0]))]),
      \<lparr>mean = Tensor [1] [0], logvar = Tensor [1] [0], modules = k\<rparr>)"
  unfolding fit_pass.simps ev_VJF_filter by simp

lemma ev_VJF_fit_state:
  "VJF_fit_state
     (\<lparr>transition = (\<lambda>m xs u. Inr xs), recognition = (\<lambda>m y pt. Inr (DiagonalGaussian pt pt)),
       decoder = (\<lambda>m xt. Inr xt), likelihood_loss = (\<lambda>m py y. Inr 0),
       transition_loss = (\<lambda>m pt xt. Inr 0), entropy = (\<lambda>q. Inr 0),
       optimizer_step = (\<lambda>s i. s\<lparr>modules := Suc (modules s)\<rparr>)\<rparr> :: nat vjf_env)
     [(Some (Tensor [1] [0]), None)] (\<lambda>i t. ([0], [0]))
     \<lparr>mean = Tensor [1] [0], logvar = Tensor [1] [0], modules = 0\<rparr> i
   = \<lparr>mean = Tensor [1] [0], logvar = Tensor [1] [0], modules = i\<rparr>"
proof (induction i)
  case 0
  then show ?case by simp
next
  case (Suc i)
  show ?case unfolding VJF_fit_state.simps Suc ev_fit_pass by simp
qed

subsection \<open>Loading \<^verbatim>\<open>model.py\<close>\<close>

lemma load_model_py_fails: "\<exists>e. load_model_py ext = Inl e"
proof (cases "import_all ext [''itertools'', ''typing'', ''torch'', ''torch.nn'', ''torch.optim'',
                               ''torch.optim.lr_scheduler'', ''tqdm'', ''.functional'']")
  case (Inl e)
  then show ?thesis by (simp add: load_model_py_def del: import_all.simps)
next
  case a: (Inr u)
  show ?thesis
  proof (cases "load_module_py ext")
    case (Inl e)
    then show ?thesis using a by (simp add: load_model_py_def del: import_all.simps)
  next
    case (Inr bound)
    then have "bound = [''Union'', ''torch'', ''Tensor'', ''linalg'', ''Parameter'', ''Module'',
          ''functional'', ''rbf'', ''kalman'', ''symmetric'', ''RBF'', ''LinearRegression'']"
      by (auto simp: load_module_py_def simp del: import_all.simps dest!: and_then_Inr)
    then have "import_from bound [''bLinReg'', ''RBF''] = Inl ImportError"
      by (simp add: import_from_def)
    then show ?thesis using a Inr by (simp add: load_model_py_def del: import_all.simps)
  qed
qed

subsection \<open>The Cholesky factor and the two substitutions solve the normal equations\<close>












subsection \<open>The gain and the precision of \<^verbatim>\<open>rls\<close> from a reset regressor\<close>


lemma zeros_like_mk2: "zeros_like (mk2 n m f) = mk2 n m (\<lambda>i j. 0)"
  by (simp add: zeros_like_def mk2_def)












lemma rls_Inr:
  assumes "rls self x target v d = (Inr (), self1)"
    and "rls_gain self x target v d = Inr (g, W)"
  shows "\<exists>L X. cholesky W = Inr L \<and> cholesky_solve g L = Inr X
            \<and> self1 = self\<lparr>w_precision := W, w_mean := X\<rparr>"
  using assms
  by (auto simp: rls_def Let_def split: sum.splits if_splits dest!: and_then_Inr)

subsection \<open>The Cholesky factorisation of a positive definite matrix succeeds\<close>








section \<open>Properties\<close>

text \<open>C1 (the code at the input where the property fails): with \<^verbatim>\<open>diffusion = 0\<close>, the default
  value of the argument, \<^verbatim>\<open>rls\<close> on a freshly constructed regressor evaluates
  \<^verbatim>\<open>1 / diffusion\<close> and raises ZeroDivisionError, leaving the regressor as it was. There is
  no zero-diffusion path.\<close>

theorem rls_zero_diffusion_raises:
  "rls (LinearRegression_init feat n_out) x target v 0
     = (Inl ZeroDivisionError, LinearRegression_init feat n_out)"
  by (simp add: rls_def rls_gain_def LinearRegression_init_def torch_eye_def mk2_def)



text \<open>C7: for every \<^verbatim>\<open>eta\<close> and \<^verbatim>\<open>target\<close> whose elementwise squared difference \<^verbatim>\<open>mse\<close> (the two
  broadcast against each other) is a tensor of two axes, \<open>b > 0\<close> rows by \<open>d\<close> columns, and the
  one-entry parameter \<^verbatim>\<open>logvar\<close>, \<^verbatim>\<open>GaussianLikelihood.loss\<close> returns
  \<open>0.5 * (mse * exp(-logvar) + logvar)\<close> summed over the dimension axis and averaged over the
  batch axis; for two matrices whose sizes agree or are 1 axis by axis, \<^verbatim>\<open>mse\<close> is the matrix
  of the squared differences with the axes of size 1 stretched; and whenever \<^verbatim>\<open>mse\<close> does not
  have exactly two axes, the assertion of line 33 fails before any reduction.\<close>

theorem GaussianLikelihood_loss_value:
  "(mse_loss eta target = Inr mse \<and> shape mse = [b, d] \<and> 0 < b \<and> gl_logvar self = Tensor [1] [lv]
      \<longrightarrow> GaussianLikelihood_loss self eta target
           = Inr (Tensor [] [(\<Sum>i<b. \<Sum>j<d. 1 / 2 * (get2 mse i j * exp (- lv) + lv)) / real b]))
   \<and> (shape eta = [b1, d1] \<and> shape target = [b2, d2] \<and> bcompat b1 b2 \<and> bcompat d1 d2
      \<longrightarrow> mse_loss eta target
           = Inr (mk2 (bdim b1 b2) (bdim d1 d2)
                   (\<lambda>i j. (get2 eta (bi b1 i) (bi d1 j) - get2 target (bi b2 i) (bi d2 j))\<^sup>2)))
   \<and> (mse_loss eta target = Inr mse \<and> ndim mse \<noteq> 2
      \<longrightarrow> GaussianLikelihood_loss self eta target = Inl AssertionError)"
proof (intro conjI impI)
  assume "mse_loss eta target = Inr mse \<and> shape mse = [b, d] \<and> 0 < b
          \<and> gl_logvar self = Tensor [1] [lv]"
  then show "GaussianLikelihood_loss self eta target
           = Inr (Tensor [] [(\<Sum>i<b. \<Sum>j<d. 1 / 2 * (get2 mse i j * exp (- lv) + lv)) / real b])"
    by (intro GaussianLikelihood_loss_of_mse) simp_all
next
  assume "shape eta = [b1, d1] \<and> shape target = [b2, d2] \<and> bcompat b1 b2 \<and> bcompat d1 d2"
  then show "mse_loss eta target
           = Inr (mk2 (bdim b1 b2) (bdim d1 d2)
                   (\<lambda>i j. (get2 eta (bi b1 i) (bi d1 j) - get2 target (bi b2 i) (bi d2 j))\<^sup>2))"
    by (intro mse_loss_2d) simp_all
next
  assume "mse_loss eta target = Inr mse \<and> ndim mse \<noteq> 2"
  then show "GaussianLikelihood_loss self eta target = Inl AssertionError"
    by (simp add: GaussianLikelihood_loss_def)
qed

theorem GaussianLikelihood_loss_value_witness:
  "mse_loss (Tensor [2, 1] [1, 2]) (Tensor [1, 2] [0, 1]) = Inr (Tensor [2, 2] [1, 0, 4, 1])
   \<and> GaussianLikelihood_loss GaussianLikelihood_init (Tensor [2, 1] [1, 2]) (Tensor [1, 2] [0, 1])
     = Inr (Tensor [] [3 / 2])
   \<and> mse_loss (Tensor [2] [1, 2]) (Tensor [2] [0, 0]) = Inr (Tensor [2] [1, 4])
   \<and> GaussianLikelihood_loss GaussianLikelihood_init (Tensor [2] [1, 2]) (Tensor [2] [0, 0])
     = Inl AssertionError"
proof -
  let ?e = "Tensor [2, 1] [1, 2]" and ?t = "Tensor [1, 2] [0, 1]"
  have "mse_loss ?e ?t
          = Inr (mk2 (bdim 2 1) (bdim 1 2)
                  (\<lambda>i j. (get2 ?e (bi 2 i) (bi 1 j) - get2 ?t (bi 1 i) (bi 2 j))\<^sup>2))"
    by (rule GaussianLikelihood_loss_value[where eta = ?e and target = ?t and ?b1.0 = 2
          and ?d1.0 = 1 and ?b2.0 = 1 and ?d2.0 = 2, THEN conjunct2, THEN conjunct1, THEN mp])
       (simp add: bcompat_def)
  then have m2: "mse_loss ?e ?t = Inr (Tensor [2, 2] [1, 0, 4, 1])"
    by (simp add: mk2_def bdim_def bi_def get2_def ncols_def upt_rec)
  have "GaussianLikelihood_loss GaussianLikelihood_init ?e ?t
     = Inr (Tensor [] [(\<Sum>i<2. \<Sum>j<2. 1 / 2 * (get2 (Tensor [2, 2] [1, 0, 4, 1]) i j * exp (- 0) + 0))
                        / real 2])"
    by (rule GaussianLikelihood_loss_value[where eta = ?e and target = ?t
          and mse = "Tensor [2, 2] [1, 0, 4, 1]" and b = 2 and d = 2
          and self = GaussianLikelihood_init and lv = 0, THEN conjunct1, THEN mp])
       (intro conjI, rule m2, simp_all add: GaussianLikelihood_init_def)
  then have v: "GaussianLikelihood_loss GaussianLikelihood_init ?e ?t = Inr (Tensor [] [3 / 2])"
    by (simp add: get2_def ncols_def eval_nat_numeral)
  have m: "mse_loss (Tensor [2] [1, 2]) (Tensor [2] [0, 0]) = Inr (Tensor [2] [1, 4])"
    by (simp add: mse_loss_def bop_def broadcast_shapes_def bindex_def upt_rec)
  have "GaussianLikelihood_loss GaussianLikelihood_init (Tensor [2] [1, 2]) (Tensor [2] [0, 0])
          = Inl AssertionError"
    by (rule GaussianLikelihood_loss_value[where eta = "Tensor [2] [1, 2]"
          and target = "Tensor [2] [0, 0]" and mse = "Tensor [2] [1, 4]"
          and self = GaussianLikelihood_init, THEN conjunct2, THEN conjunct2, THEN mp])
       (intro conjI, rule m, simp add: ndim_def)
  with m2 v m show ?thesis by blast
qed

text \<open>C5: for a state \<open>x\<close> of shape (batch, dimension), \<^verbatim>\<open>RBFLDS.forward\<close> returns \<open>x\<close> plus the
  regressor's output, \<open>x + features(xu) W\<close>, where \<open>xu\<close> is \<open>x\<close> itself when there is no control
  and the concatenation of \<open>x\<close> and the control along the last axis otherwise, and \<open>W\<close> is the
  weight the regressor uses (its mean, or a sample around it): the regressor models the
  increment of the state.\<close>

theorem RBFLDS_forward_residual:
  "shape x = [b, d] \<and> shape F = [b, nf]
   \<and> LinearRegression_weight (linreg self) sampling eps = Inr W \<and> shape W = [nf, d]
   \<longrightarrow>
     (feature_forward (feature (linreg self)) x = Inr F
        \<longrightarrow> RBFLDS_forward self x None sampling eps
            = Inr (mk2 b d (\<lambda>i j. get2 x i j + (\<Sum>k<nf. get2 F i k * get2 W k j))))
   \<and> (shape (atleast_2d u) = [b, du]
        \<and> feature_forward (feature (linreg self))
            (mk2 b (d + du) (\<lambda>i j. if j < d then get2 x i j else get2 (atleast_2d u) i (j - d)))
          = Inr F
        \<longrightarrow> RBFLDS_forward self x (Some u) sampling eps
            = Inr (mk2 b d (\<lambda>i j. get2 x i j + (\<Sum>k<nf. get2 F i k * get2 W k j))))"
proof (intro impI conjI)
  assume h: "shape x = [b, d] \<and> shape F = [b, nf]
   \<and> LinearRegression_weight (linreg self) sampling eps = Inr W \<and> shape W = [nf, d]"
  then have x: "shape x = [b, d]" and F: "shape F = [b, nf]"
    and W: "LinearRegression_weight (linreg self) sampling eps = Inr W" and sW: "shape W = [nf, d]"
    by auto
  have fwd: "LinearRegression_forward (linreg self) xu sampling eps
               = Inr (mk2 b d (\<lambda>i j. \<Sum>k<nf. get2 F i k * get2 W k j))"
    if "feature_forward (feature (linreg self)) xu = Inr F" for xu
    using linear_t_2d[OF F sW] by (simp add: LinearRegression_forward_def that W)
  {
    assume "feature_forward (feature (linreg self)) x = Inr F"
    then show "RBFLDS_forward self x None sampling eps
            = Inr (mk2 b d (\<lambda>i j. get2 x i j + (\<Sum>k<nf. get2 F i k * get2 W k j)))"
      by (simp add: RBFLDS_forward_def fwd tadd_2d_same[OF x])
  }
  {
    assume "shape (atleast_2d u) = [b, du]
        \<and> feature_forward (feature (linreg self))
            (mk2 b (d + du) (\<lambda>i j. if j < d then get2 x i j else get2 (atleast_2d u) i (j - d)))
          = Inr F"
    then show "RBFLDS_forward self x (Some u) sampling eps
            = Inr (mk2 b d (\<lambda>i j. get2 x i j + (\<Sum>k<nf. get2 F i k * get2 W k j)))"
      by (simp add: RBFLDS_forward_def cat_last_2d[OF x] fwd tadd_2d_same[OF x])
  }
qed


theorem RBFLDS_forward_residual_witness:
  "RBFLDS_forward
      \<lparr>linreg = \<lparr>feature = \<lparr>n_feature = 1, feature_forward = Inr\<rparr>, n_output = 1,
                 w_mean = Tensor [1, 1] [5], w_chol = Tensor [1, 1] [1],
                 w_precision = Tensor [1, 1] [1]\<rparr>,
       rbf_logvar = Tensor [1] [1]\<rparr>
      (Tensor [1, 1] [2]) None False [] = Inr (Tensor [1, 1] [12])
   \<and> RBFLDS_forward
      \<lparr>linreg = \<lparr>feature = \<lparr>n_feature = 2, feature_forward = Inr\<rparr>, n_output = 1,
                 w_mean = Tensor [2, 1] [1, 10], w_chol = Tensor [2, 2] [1, 0, 0, 1],
                 w_precision = Tensor [2, 2] [1, 0, 0, 1]\<rparr>,
       rbf_logvar = Tensor [1] [1]\<rparr>
      (Tensor [1, 1] [2]) (Some (Tensor [1] [3])) False [] = Inr (Tensor [1, 1] [34])"
proof -
  let ?s1 = "\<lparr>linreg = \<lparr>feature = \<lparr>n_feature = 1, feature_forward = Inr\<rparr>, n_output = 1,
                 w_mean = Tensor [1, 1] [5], w_chol = Tensor [1, 1] [1],
                 w_precision = Tensor [1, 1] [1]\<rparr>,
       rbf_logvar = Tensor [1] [1]\<rparr>"
  let ?s2 = "\<lparr>linreg = \<lparr>feature = \<lparr>n_feature = 2, feature_forward = Inr\<rparr>, n_output = 1,
                 w_mean = Tensor [2, 1] [1, 10], w_chol = Tensor [2, 2] [1, 0, 0, 1],
                 w_precision = Tensor [2, 2] [1, 0, 0, 1]\<rparr>,
       rbf_logvar = Tensor [1] [1]\<rparr>"
  let ?x = "Tensor [1, 1] [2]"
  have "RBFLDS_forward ?s1 ?x None False []
          = Inr (mk2 1 1 (\<lambda>i j. get2 ?x i j + (\<Sum>k<1. get2 ?x i k * get2 (Tensor [1, 1] [5]) k j)))"
    using RBFLDS_forward_residual[where x = ?x and b = 1 and d = 1 and F = ?x and nf = 1
        and self = ?s1 and sampling = False and eps = "[]" and W = "Tensor [1, 1] [5]"]
    by (simp add: LinearRegression_weight_def)
  then have a: "RBFLDS_forward ?s1 ?x None False [] = Inr (Tensor [1, 1] [12])"
    by (simp add: mk2_def get2_def ncols_def)
  let ?F = "mk2 1 (1 + 1) (\<lambda>i j. if j < 1 then get2 ?x i j else get2 (atleast_2d (Tensor [1] [3])) i (j - 1))"
  have "RBFLDS_forward ?s2 ?x (Some (Tensor [1] [3])) False []
          = Inr (mk2 1 1 (\<lambda>i j. get2 ?x i j + (\<Sum>k<2. get2 ?F i k * get2 (Tensor [2, 1] [1, 10]) k j)))"
    using RBFLDS_forward_residual[where x = ?x and b = 1 and d = 1 and F = ?F and nf = 2
        and self = ?s2 and sampling = False and eps = "[]" and W = "Tensor [2, 1] [1, 10]"
        and u = "Tensor [1] [3]" and du = 1]
    by (simp add: LinearRegression_weight_def atleast_2d_def ndim_def shape_mk2 del: One_nat_def)
  then have b: "RBFLDS_forward ?s2 ?x (Some (Tensor [1] [3])) False [] = Inr (Tensor [1, 1] [34])"
    by (simp add: mk2_def get2_def ncols_def atleast_2d_def ndim_def eval_nat_numeral)
  from a b show ?thesis by blast
qed

text \<open>C10: \<^verbatim>\<open>VJF.filter\<close> of \<^verbatim>\<open>online.py\<close> called with \<^verbatim>\<open>u = None\<close> raises when it converts
  its arguments with \<^verbatim>\<open>torch.as_tensor\<close>, before any step is fed and with the object unchanged,
  whatever the other arguments are. \<^verbatim>\<open>VJF.filter\<close> of \<^verbatim>\<open>model.py\<close> does not convert a control that
  is \<^verbatim>\<open>None\<close>: it passes \<^verbatim>\<open>None\<close> on to the forward pass and returns normally whenever the
  forward pass and the loss do.\<close>

theorem filter_requires_control:
  "online_filter env self y None q0 time_major grp sample regularize optim noise
     = (Inl ConversionError, self)
   \<and> (VJF_forward menv mself (atleast_2d my) q None eps = Inr (xs, pt, qt, xt, py)
        \<and> VJF_loss menv mself (atleast_2d my) xs pt qt xt py False = Inr loss
      \<longrightarrow> VJF_filter menv mself (Some my) None (Some q) update eps
          = (Inr (qt, loss),
             if update then optimizer_step menv mself [(Some my, None, Some q, eps)] else mself))"
proof -
  have "online_filter env self y None q0 time_major grp sample regularize optim noise
     = (Inl ConversionError, self)"
    by (cases y) (simp_all add: online_filter_def as_tensor_def)
  moreover have "VJF_filter menv mself (Some my) None (Some q) update eps
          = (Inr (qt, loss),
             if update then optimizer_step menv mself [(Some my, None, Some q, eps)] else mself)"
    if "VJF_forward menv mself (atleast_2d my) q None eps = Inr (xs, pt, qt, xt, py)"
      and "VJF_loss menv mself (atleast_2d my) xs pt qt xt py False = Inr loss"
    using that by (simp add: VJF_filter_def as_tensor_def)
  ultimately show ?thesis by blast
qed

theorem filter_requires_control_witness:
  "VJF_forward
      \<lparr>transition = (\<lambda>m xs u. Inr xs), recognition = (\<lambda>m y pt. Inr (DiagonalGaussian pt pt)),
       decoder = (\<lambda>m xt. Inr xt), likelihood_loss = (\<lambda>m py y. Inr 0),
       transition_loss = (\<lambda>m pt xt. Inr 0), entropy = (\<lambda>q. Inr 0),
       optimizer_step = (\<lambda>s i. s)\<rparr>
      (VJF_init 1 ()) (atleast_2d (Tensor [1] [0]))
      (DiagonalGaussian (Tensor [1, 1] [0]) (Tensor [1, 1] [0])) None ([0], [0])
     = Inr (Tensor [1, 1] [0], Tensor [1, 1] [0],
            DiagonalGaussian (Tensor [1, 1] [0]) (Tensor [1, 1] [0]),
            Tensor [1, 1] [0], Tensor [1, 1] [0])
   \<and> VJF_filter
      \<lparr>transition = (\<lambda>m xs u. Inr xs), recognition = (\<lambda>m y pt. Inr (DiagonalGaussian pt pt)),
       decoder = (\<lambda>m xt. Inr xt), likelihood_loss = (\<lambda>m py y. Inr 0),
       transition_loss = (\<lambda>m pt xt. Inr 0), entropy = (\<lambda>q. Inr 0),
       optimizer_step = (\<lambda>s i. s)\<rparr>
      (VJF_init 1 ()) (Some (Tensor [1] [0])) None
      (Some (DiagonalGaussian (Tensor [1, 1] [0]) (Tensor [1, 1] [0]))) True ([0], [0])
     = (Inr (DiagonalGaussian (Tensor [1, 1] [0]) (Tensor [1, 1] [0]), 0), VJF_init 1 ())"
proof -
  let ?env = "\<lparr>transition = (\<lambda>m xs u. Inr xs), recognition = (\<lambda>m y pt. Inr (DiagonalGaussian pt pt)),
       decoder = (\<lambda>m xt. Inr xt), likelihood_loss = (\<lambda>m py y. Inr 0),
       transition_loss = (\<lambda>m pt xt. Inr 0), entropy = (\<lambda>q. Inr 0),
       optimizer_step = (\<lambda>s i. s)\<rparr> :: unit vjf_env"
  let ?q = "DiagonalGaussian (Tensor [1, 1] [0]) (Tensor [1, 1] [0])"
  let ?z = "Tensor [1, 1] [0]"
  have f: "VJF_forward ?env (VJF_init 1 ()) (atleast_2d (Tensor [1] [0])) ?q None ([0], [0])
     = Inr (?z, ?z, ?q, ?z, ?z)"
    by (simp add: VJF_forward_def detach_def ev_reparam0 del: One_nat_def)
  have l: "VJF_loss ?env (VJF_init 1 ()) (atleast_2d (Tensor [1] [0])) ?z ?z ?q ?z ?z False = Inr 0"
    by (simp add: VJF_loss_def)
  have "VJF_filter ?env (VJF_init 1 ()) (Some (Tensor [1] [0])) None (Some ?q) True ([0], [0])
     = (Inr (?q, 0), if True then optimizer_step ?env (VJF_init 1 ())
                        [(Some (Tensor [1] [0]), None, Some ?q, ([0], [0]))] else VJF_init 1 ())"
    by (rule filter_requires_control[where menv = ?env and mself = "VJF_init 1 ()"
          and my = "Tensor [1] [0]" and q = ?q and eps = "([0], [0])" and update = True
          and xs = ?z and pt = ?z and qt = ?q and xt = ?z and py = ?z and loss = 0,
          THEN conjunct2, THEN mp])
       (intro conjI f l)
  then have "VJF_filter ?env (VJF_init 1 ()) (Some (Tensor [1] [0])) None (Some ?q) True ([0], [0])
     = (Inr (?q, 0), VJF_init 1 ())"
    by simp
  with f show ?thesis by blast
qed

text \<open>C2, as the code has it. In \<^verbatim>\<open>model.py\<close>, \<^verbatim>\<open>filter\<close> passes the observation through
  \<^verbatim>\<open>atleast_2d\<close>. For every observation \<open>y\<close> that has two axes after that (a tensor without axes,
  a vector, or a matrix), \<open>n\<close> rows say, and the parameters \<^verbatim>\<open>mean\<close> and \<^verbatim>\<open>logvar\<close> of \<open>xd\<close>
  entries each, \<^verbatim>\<open>prior\<close> of that observation is the pair of the two parameters tiled to \<open>n\<close>
  rows, and \<^verbatim>\<open>filter\<close> without a previous posterior computes what it computes from that prior;
  for an observation of more than two axes \<^verbatim>\<open>filter\<close> without a previous posterior fails the
  assertion of \<^verbatim>\<open>prior\<close> and leaves the object as it was. In \<^verbatim>\<open>online.py\<close>, \<^verbatim>\<open>feed\<close> without a
  previous posterior starts from mean zero and log-variance zero of shape (batch, xdim),
  whatever the parameters are: it does what it does when given that pair.

  The claim as stated fails for \<^verbatim>\<open>feed\<close>: at the observation \<open>[[0]]\<close> its prior is \<open>([[0]], [[0]])\<close>,
  which is not the tiling \<open>([[1]], [[2]])\<close> of learned parameters \<open>mean = [1]\<close>, \<open>logvar = [2]\<close>
  that \<^verbatim>\<open>prior\<close> returns.\<close>

theorem prior_when_no_posterior:
  "(shape (atleast_2d y) = [n, dy] \<and> shape (mean self) = [xd] \<and> shape (logvar self) = [xd]
      \<longrightarrow> VJF_prior self (atleast_2d y)
            = Inr (DiagonalGaussian (mk2 n xd (\<lambda>i j. data (mean self) ! j))
                                    (mk2 n xd (\<lambda>i j. data (logvar self) ! j)))
          \<and> fst (VJF_filter env self (Some y) u None update eps)
            = fst (VJF_filter env self (Some y) u
                     (Some (DiagonalGaussian (mk2 n xd (\<lambda>i j. data (mean self) ! j))
                                             (mk2 n xd (\<lambda>i j. data (logvar self) ! j))))
                     update eps))
   \<and> (2 < ndim y
      \<longrightarrow> VJF_filter env self (Some y) u None update eps = (Inl AssertionError, self))
   \<and> (shape oy = batch # rest
      \<longrightarrow> feed_prior (xdim oself) None oy
            = Inr (torch_zeros2 batch (xdim oself), torch_zeros2 batch (xdim oself))
          \<and> feed oenv oself (oy, ou) None grp sample regularize optim nz
            = feed oenv oself (oy, ou)
                (Some (torch_zeros2 batch (xdim oself), torch_zeros2 batch (xdim oself)))
                grp sample regularize optim nz)"
proof (intro conjI impI)
  assume h: "shape (atleast_2d y) = [n, dy] \<and> shape (mean self) = [xd] \<and> shape (logvar self) = [xd]"
  then have p: "VJF_prior self (atleast_2d y)
            = Inr (DiagonalGaussian (mk2 n xd (\<lambda>i j. data (mean self) ! j))
                                    (mk2 n xd (\<lambda>i j. data (logvar self) ! j)))"
    by (intro VJF_prior_tiled) auto
  then show "VJF_prior self (atleast_2d y)
            = Inr (DiagonalGaussian (mk2 n xd (\<lambda>i j. data (mean self) ! j))
                                    (mk2 n xd (\<lambda>i j. data (logvar self) ! j)))" .
  show "fst (VJF_filter env self (Some y) u None update eps)
            = fst (VJF_filter env self (Some y) u
                     (Some (DiagonalGaussian (mk2 n xd (\<lambda>i j. data (mean self) ! j))
                                             (mk2 n xd (\<lambda>i j. data (logvar self) ! j))))
                     update eps)"
    by (simp add: VJF_filter_def as_tensor_def p Let_def split: sum.splits)
next
  assume "2 < ndim y"
  then have "atleast_2d y = y" "ndim y \<noteq> 2" by (simp_all add: atleast_2d_def)
  then have "VJF_prior self (atleast_2d y) = Inl AssertionError" by (simp add: VJF_prior_def)
  then show "VJF_filter env self (Some y) u None update eps = (Inl AssertionError, self)"
    by (cases u) (simp_all add: VJF_filter_def as_tensor_def Let_def)
next
  assume "shape oy = batch # rest"
  then show "feed_prior (xdim oself) None oy
            = Inr (torch_zeros2 batch (xdim oself), torch_zeros2 batch (xdim oself))"
    by (simp add: feed_prior_def)
next
  assume "shape oy = batch # rest"
  then show "feed oenv oself (oy, ou) None grp sample regularize optim nz
            = feed oenv oself (oy, ou)
                (Some (torch_zeros2 batch (xdim oself), torch_zeros2 batch (xdim oself)))
                grp sample regularize optim nz"
    by (simp add: feed_def feed_prior_def)
qed

theorem prior_when_no_posterior_counterexample:
  "feed_prior 1 None (Tensor [1, 1] [0]) = Inr (Tensor [1, 1] [0], Tensor [1, 1] [0])
   \<and> VJF_prior \<lparr>mean = Tensor [1] [1], logvar = Tensor [1] [2], modules = ()\<rparr> (Tensor [1, 1] [0])
     = Inr (DiagonalGaussian (Tensor [1, 1] [1]) (Tensor [1, 1] [2]))
   \<and> (Tensor [1, 1] [0], Tensor [1, 1] [0]) \<noteq> (Tensor [1, 1] [1], Tensor [1, 1] [2])"
  by (simp add: feed_prior_def torch_zeros2_def mk2_def VJF_prior_def ndim_def atleast_2d_def
      tile_def nrows_def ncols_def get2_def)

theorem prior_when_no_posterior_witness:
  "VJF_prior \<lparr>mean = Tensor [2] [1, 3], logvar = Tensor [2] [2, 4], modules = ()\<rparr>
       (atleast_2d (Tensor [3] [0, 0, 0]))
     = Inr (DiagonalGaussian (Tensor [1, 2] [1, 3]) (Tensor [1, 2] [2, 4]))
   \<and> VJF_filter
       (\<lparr>transition = (\<lambda>m x u. Inr x), recognition = (\<lambda>m y p. Inr (DiagonalGaussian p p)),
          decoder = (\<lambda>m x. Inr x), likelihood_loss = (\<lambda>m a b. Inr 0),
          transition_loss = (\<lambda>m a b. Inr 0), entropy = (\<lambda>q. Inr 0),
          optimizer_step = (\<lambda>s l. s)\<rparr> :: unit vjf_env)
       \<lparr>mean = Tensor [2] [1, 3], logvar = Tensor [2] [2, 4], modules = ()\<rparr>
       (Some (Tensor [1, 1, 1] [0])) None None False ([], [])
     = (Inl AssertionError, \<lparr>mean = Tensor [2] [1, 3], logvar = Tensor [2] [2, 4], modules = ()\<rparr>)
   \<and> feed_prior 1 None (Tensor [3, 1] [0, 0, 0])
     = Inr (Tensor [3, 1] [0, 0, 0], Tensor [3, 1] [0, 0, 0])"
proof -
  let ?s = "\<lparr>mean = Tensor [2] [1, 3], logvar = Tensor [2] [2, 4], modules = ()\<rparr>"
  let ?y = "Tensor [3] [0, 0, 0]"
  have "VJF_prior ?s (atleast_2d ?y)
     = Inr (DiagonalGaussian (mk2 1 2 (\<lambda>i j. data (mean ?s) ! j)) (mk2 1 2 (\<lambda>i j. data (logvar ?s) ! j)))"
    by (rule prior_when_no_posterior[where y = ?y and n = 1 and dy = 3
          and self = ?s and xd = 2, THEN conjunct1, THEN mp, THEN conjunct1])
       (simp add: atleast_2d_def ndim_def)
  then have a: "VJF_prior ?s (atleast_2d ?y)
     = Inr (DiagonalGaussian (Tensor [1, 2] [1, 3]) (Tensor [1, 2] [2, 4]))"
    by (simp add: mk2_def upt_rec)
  let ?env = "\<lparr>transition = (\<lambda>m x u. Inr x), recognition = (\<lambda>m y p. Inr (DiagonalGaussian p p)),
          decoder = (\<lambda>m x. Inr x), likelihood_loss = (\<lambda>m a b. Inr 0),
          transition_loss = (\<lambda>m a b. Inr 0), entropy = (\<lambda>q. Inr 0),
          optimizer_step = (\<lambda>s l. s)\<rparr> :: unit vjf_env"
  have c: "VJF_filter ?env ?s (Some (Tensor [1, 1, 1] [0])) None None False ([], [])
             = (Inl AssertionError, ?s)"
    by (rule prior_when_no_posterior[where y = "Tensor [1, 1, 1] [0]" and self = ?s,
          THEN conjunct2, THEN conjunct1, THEN mp]) (simp add: ndim_def)
  have "feed_prior (xdim \<lparr>xdim = 1, udim = 0, clip_gradients = None, params = ()\<rparr>) None
          (Tensor [3, 1] [0, 0, 0])
     = Inr (torch_zeros2 3 (xdim \<lparr>xdim = 1, udim = 0, clip_gradients = None, params = ()\<rparr>),
            torch_zeros2 3 (xdim \<lparr>xdim = 1, udim = 0, clip_gradients = None, params = ()\<rparr>))"
    by (rule prior_when_no_posterior[where oy = "Tensor [3, 1] [0, 0, 0]" and batch = 3
          and rest = "[1]"
          and oself = "\<lparr>xdim = 1, udim = 0, clip_gradients = None, params = ()\<rparr>",
          THEN conjunct2, THEN conjunct2, THEN mp, THEN conjunct1]) simp
  then have b: "feed_prior 1 None (Tensor [3, 1] [0, 0, 0])
     = Inr (Tensor [3, 1] [0, 0, 0], Tensor [3, 1] [0, 0, 0])"
    by (simp add: torch_zeros2_def mk2_def upt_rec)
  from a b c show ?thesis by blast
qed

text \<open>C6: let the initial state (after \<^verbatim>\<open>atleast_2d\<close>) have shape (size, xdim), let every step of
  the loop succeed on a state of that shape, and let decoder and likelihood succeed on a
  trajectory of states of that shape (a tensor of shape (t, size, xdim)) and keep its first
  axis. Then for every number of steps \<open>n\<close> and every noise \<open>eps\<close>,
  \<^verbatim>\<open>forecast(x0, step=n, inclusive=True)\<close> returns a latent trajectory of \<open>n + 1\<close> entries, the first
  of which is the initial state, and an observation trajectory of \<open>n + 1\<close> entries; with
  \<^verbatim>\<open>inclusive=False\<close> and the same noise it returns both without their first entry, of length
  \<open>n\<close>.\<close>

theorem forecast_trajectories:
  assumes x0: "shape (atleast_2d x0) = [sz, xdim self]"
      "length (data (atleast_2d x0)) = sz * xdim self"
    and step: "\<forall>i x. shape x = [sz, xdim self] \<and> length (data x) = sz * xdim self
                 \<longrightarrow> (\<exists>x'. forecast_step env (params self) (torch_zeros2 sz (udim self))
                                 [sz, xdim self] (eps i) x = Inr x')"
    and dec: "\<forall>x t. shape x = [t, sz, xdim self] \<and> length (data x) = t * (sz * xdim self)
                 \<longrightarrow> (\<exists>y. decode env (params self) x = Inr y \<and> shape y \<noteq> []
                          \<and> hd (shape y) = t)"
  shows "\<exists>xs y y'.
           forecast env self x0 n True eps = Inr (stack0 [sz, xdim self] (atleast_2d x0 # xs), y)
         \<and> length xs = n
         \<and> shape (stack0 [sz, xdim self] (atleast_2d x0 # xs)) = [n + 1, sz, xdim self]
         \<and> hd (shape y) = n + 1
         \<and> forecast env self x0 n False eps = Inr (stack0 [sz, xdim self] xs, y')
         \<and> shape (stack0 [sz, xdim self] xs) = [n, sz, xdim self]
         \<and> hd (shape y') = n
         \<and> slice_from1 (stack0 [sz, xdim self] (atleast_2d x0 # xs)) = Inr (stack0 [sz, xdim self] xs)
         \<and> slice_from1 y = Inr y'"
proof -
  let ?slot = "[sz, xdim self]"
  let ?a = "atleast_2d x0"
  have e: "expand_to ?slot ?a = Inr ?a" using x0 by (rule expand_to_2d_same)
  have "\<exists>xs. forecast_loop env (params self) (torch_zeros2 sz (udim self)) ?slot eps n 0 [?a]
                = Inr ([?a] @ xs) \<and> length xs = n
              \<and> (\<forall>t\<in>set xs. shape t = ?slot \<and> length (data t) = prod_list ?slot)"
    using step x0 by (intro forecast_loop_length) simp_all
  then obtain xs where
    l: "forecast_loop env (params self) (torch_zeros2 sz (udim self)) ?slot eps n 0 [?a]
          = Inr (?a # xs)" and n: "length xs = n"
    and w: "\<forall>t\<in>set xs. length (data t) = sz * xdim self"
    by auto
  let ?x = "stack0 ?slot (?a # xs)"
  have "\<forall>t\<in>set (?a # xs). length (data t) = sz * xdim self" using w x0(2) by simp
  then have "length (data ?x) = length (?a # xs) * (sz * xdim self)"
    unfolding stack0_def by (rule stack_length)
  then have "shape ?x = [n + 1, sz, xdim self] \<and> length (data ?x) = (n + 1) * (sz * xdim self)"
    using n by (simp add: stack0_def)
  with dec obtain y where y: "decode env (params self) ?x = Inr y" "shape y \<noteq> []"
    "hd (shape y) = n + 1" by blast
  from y(2) obtain s0 rest where sy: "shape y = s0 # rest" by (cases "shape y") auto
  with y(3) n have s0: "s0 = n + 1" by simp
  let ?y' = "Tensor ((s0 - 1) # rest) (drop (prod_list rest) (data y))"
  have sl: "slice_from1 y = Inr ?y'" by (simp add: slice_from1_def sy)
  have sx: "slice_from1 ?x = Inr (stack0 ?slot xs)"
    using x0 by (intro slice_stack0) simp
  have t: "forecast env self x0 n True eps = Inr (?x, y)"
    using x0(1) by (simp add: forecast_def Let_def e l y)
  have f: "forecast env self x0 n False eps = Inr (stack0 ?slot xs, ?y')"
    using x0(1) by (simp add: forecast_def Let_def e l y sx sl)
  show ?thesis
    using t f n sx sl sy s0
    by (intro exI[of _ xs] exI[of _ y] exI[of _ ?y']) (simp add: stack0_def)
qed

theorem forecast_trajectories_witness:
  "\<exists>xs y y'.
     forecast
       (\<lparr>recognizer = (\<lambda>p y u q. Inr q), elbo = (\<lambda>p q0 q obs s r n. Inr (0, 0, 0)),
        feed_step = (\<lambda>p q0 obs s r n c g. p), fit_step = (\<lambda>p y u q0 t n c g. p),
        system = (\<lambda>p x u. Inr x), state_noise_std = (\<lambda>p. Tensor [1] [1]),
        decode = (\<lambda>p x. if drop 2 (shape x) = [1] then Inr x else Inl RuntimeError)\<rparr>
          :: (unit, unit) online_env)
       \<lparr>xdim = 1, udim = 0, clip_gradients = None, params = ()\<rparr>
       (Tensor [1] [5]) 3 True (\<lambda>i. [1])
       = Inr (stack0 [1, 1] (atleast_2d (Tensor [1] [5]) # xs), y)
     \<and> length xs = 3
     \<and> shape (stack0 [1, 1] (atleast_2d (Tensor [1] [5]) # xs)) = [3 + 1, 1, 1]
     \<and> hd (shape y) = 3 + 1
     \<and> forecast
       (\<lparr>recognizer = (\<lambda>p y u q. Inr q), elbo = (\<lambda>p q0 q obs s r n. Inr (0, 0, 0)),
        feed_step = (\<lambda>p q0 obs s r n c g. p), fit_step = (\<lambda>p y u q0 t n c g. p),
        system = (\<lambda>p x u. Inr x), state_noise_std = (\<lambda>p. Tensor [1] [1]),
        decode = (\<lambda>p x. if drop 2 (shape x) = [1] then Inr x else Inl RuntimeError)\<rparr>
          :: (unit, unit) online_env)
       \<lparr>xdim = 1, udim = 0, clip_gradients = None, params = ()\<rparr>
       (Tensor [1] [5]) 3 False (\<lambda>i. [1])
       = Inr (stack0 [1, 1] xs, y')
     \<and> shape (stack0 [1, 1] xs) = [3, 1, 1]
     \<and> hd (shape y') = 3
     \<and> slice_from1 (stack0 [1, 1] (atleast_2d (Tensor [1] [5]) # xs)) = Inr (stack0 [1, 1] xs)
     \<and> slice_from1 y = Inr y'"
proof -
  let ?env = "\<lparr>recognizer = (\<lambda>p y u q. Inr q), elbo = (\<lambda>p q0 q obs s r n. Inr (0, 0, 0)),
        feed_step = (\<lambda>p q0 obs s r n c g. p), fit_step = (\<lambda>p y u q0 t n c g. p),
        system = (\<lambda>p x u. Inr x), state_noise_std = (\<lambda>p. Tensor [1] [1]),
        decode = (\<lambda>p x. if drop 2 (shape x) = [1] then Inr x else Inl RuntimeError)\<rparr>
          :: (unit, unit) online_env"
  let ?self = "\<lparr>xdim = 1, udim = 0, clip_gradients = None, params = ()\<rparr>"
  have a: "shape (atleast_2d (Tensor [1] [5])) = [1, xdim ?self]"
    by (simp add: atleast_2d_def ndim_def)
  have b: "length (data (atleast_2d (Tensor [1] [5]))) = 1 * xdim ?self"
    by (simp add: atleast_2d_def ndim_def)
  have c: "\<forall>i x. shape x = [1, xdim ?self] \<and> length (data x) = 1 * xdim ?self
             \<longrightarrow> (\<exists>x'. forecast_step ?env (params ?self) (torch_zeros2 1 (udim ?self))
                            [1, xdim ?self] ((\<lambda>i. [1]) i) x = Inr x')"
    by (intro allI impI forecast_step_identity[where c = 1]) simp_all
  have d: "\<forall>x t. shape x = [t, 1, xdim ?self] \<and> length (data x) = t * (1 * xdim ?self)
             \<longrightarrow> (\<exists>y. decode ?env (params ?self) x = Inr y \<and> shape y \<noteq> [] \<and> hd (shape y) = t)"
    by simp
  show ?thesis
    using forecast_trajectories[OF a b c d, of 3] by simp
qed

text \<open>C3, as the code has it. For \<^verbatim>\<open>fit\<close> of \<^verbatim>\<open>online.py\<close>, given an observation argument that
  has a \<^verbatim>\<open>shape\<close> (a tensor or a numpy array) of enough axes and a configured clipping bound:
  if the passes of the filter of the iterations \<open>0\<close> to \<open>j\<close> succeed with the losses
  \<open>L 0, ..., L j\<close>, and \<open>j\<close> is the first iteration whose loss is \<^verbatim>\<open>torch.isclose\<close> to the loss of
  the iteration before (\<open>\<bar>L (j - 1) - L j\<bar> \<le> 1e-8 + 1e-5 * \<bar>L j\<bar>\<close>; never the first iteration,
  where the loss before is \<^verbatim>\<open>nan\<close>), then the loop stops at iteration \<open>j\<close>, prints \<^verbatim>\<open>Converged\<close>
  and returns the loss of the iteration before, whatever later passes would have done; if
  the passes of all \<open>max_iter > 0\<close> iterations succeed and none is close to the one before, it
  runs them all, prints \<^verbatim>\<open>Maximum iteration reached.\<close> and returns normally. Given a nested
  list as the observation argument, \<^verbatim>\<open>fit\<close> raises AttributeError at line 493, before the
  first pass. \<^verbatim>\<open>fit\<close> of \<^verbatim>\<open>model.py\<close> prints nothing, and when its passes succeed it runs all
  \<open>max_iter\<close> iterations whatever the losses.

  The claim as stated fails for \<^verbatim>\<open>fit\<close> of \<^verbatim>\<open>model.py\<close>: with a loss that is 0 in every
  iteration and \<^verbatim>\<open>max_iter = 3\<close> it takes three optimizer steps and reports nothing.\<close>

theorem fit_convergence:
  "(clip_gradients self = Some c \<and> fit_T y tm = Inr T \<and> j < max_iter
      \<and> (\<forall>i\<le>j. fst (online_filter env
                        (online_fit_state env (map_option array_value y) u q0 tm grp c noise self i)
                        (map_option array_value y) u q0 tm fit_groups True False False (noise i))
                   = Inr (M i, V i, E i)
                 \<and> fit_new_loss (E i) T = Inr (L i))
      \<and> torch_isclose (prev_loss L j) (L j)
      \<and> (\<forall>m<j. \<not> torch_isclose (prev_loss L m) (L m))
    \<longrightarrow> online_fit env self y u q0 tm max_iter grp noise
        = (Inr (M j, V j, prev_loss L j),
           online_fit_state env (map_option array_value y) u q0 tm grp c noise self j,
           [''Converged'']))
   \<and> (clip_gradients self = Some c \<and> fit_T y tm = Inr T \<and> 0 < max_iter
      \<and> (\<forall>i<max_iter. fst (online_filter env
                        (online_fit_state env (map_option array_value y) u q0 tm grp c noise self i)
                        (map_option array_value y) u q0 tm fit_groups True False False (noise i))
                   = Inr (M i, V i, E i)
                 \<and> fit_new_loss (E i) T = Inr (L i))
      \<and> (\<forall>m<max_iter. \<not> torch_isclose (prev_loss L m) (L m))
    \<longrightarrow> online_fit env self y u q0 tm max_iter grp noise
        = (Inr (M (max_iter - 1), V (max_iter - 1), Some (L (max_iter - 1))),
           online_fit_state env (map_option array_value y) u q0 tm grp c noise self max_iter,
           [''Maximum iteration reached.'']))
   \<and> \<not> torch_isclose (prev_loss L 0) (L 0)
   \<and> online_fit env self (Some (NestedList t)) u q0 tm max_iter grp noise
       = (Inl AttributeError, self, [])
   \<and> snd (snd (VJF_fit menv mself my mu mmax meps)) = []
   \<and> (as_tensor my = Inr my' \<and> fit_pairs (atleast_2d my') mu = Inr pairs \<and> 0 < mmax
        \<and> (\<forall>i<mmax. \<exists>ls ins s1.
               fit_pass menv (VJF_fit_state menv pairs meps mself i) pairs None (meps i) 0
                 = (Inr (Q i, ls, ins), s1) \<and> ls \<noteq> [])
      \<longrightarrow> VJF_fit menv mself my mu mmax meps
          = (Inr (Q (mmax - 1)), VJF_fit_state menv pairs meps mself mmax, []))"
proof (intro conjI impI)
  let ?y = "map_option array_value y"
  assume h: "clip_gradients self = Some c \<and> fit_T y tm = Inr T \<and> j < max_iter
      \<and> (\<forall>i\<le>j. fst (online_filter env (online_fit_state env ?y u q0 tm grp c noise self i)
                        ?y u q0 tm fit_groups True False False (noise i))
                   = Inr (M i, V i, E i)
                 \<and> fit_new_loss (E i) T = Inr (L i))
      \<and> torch_isclose (prev_loss L j) (L j)
      \<and> (\<forall>m<j. \<not> torch_isclose (prev_loss L m) (L m))"
  then have clip: "clip_gradients self = Some c" and T: "fit_T y tm = Inr T"
    and j: "j < max_iter" "torch_isclose (prev_loss L j) (L j)"
    and pass: "\<forall>i\<le>j. fst (online_filter env (online_fit_state env ?y u q0 tm grp c noise self i)
                        ?y u q0 tm fit_groups True False False (noise i))
                   = Inr (M i, V i, E i)
                 \<and> fit_new_loss (E i) T = Inr (L i)"
    and first: "\<forall>m<j. \<not> torch_isclose (prev_loss L m) (L m)"
    by blast+
  have "fit_loop env ?y u q0 tm grp T noise max_iter 0
          (online_fit_state env ?y u q0 tm grp c noise self 0) (prev_loss L 0) None
        = (Inr (M j, V j, prev_loss L j), online_fit_state env ?y u q0 tm grp c noise self j,
           [''Converged''])"
    by (intro fit_loop_converges[OF clip pass j first]) simp_all
  then show "online_fit env self y u q0 tm max_iter grp noise
        = (Inr (M j, V j, prev_loss L j),
           online_fit_state env ?y u q0 tm grp c noise self j, [''Converged''])"
    by (simp add: online_fit_def T prev_loss_def)
next
  let ?y = "map_option array_value y"
  assume h: "clip_gradients self = Some c \<and> fit_T y tm = Inr T \<and> 0 < max_iter
      \<and> (\<forall>i<max_iter. fst (online_filter env (online_fit_state env ?y u q0 tm grp c noise self i)
                        ?y u q0 tm fit_groups True False False (noise i))
                   = Inr (M i, V i, E i)
                 \<and> fit_new_loss (E i) T = Inr (L i))
      \<and> (\<forall>m<max_iter. \<not> torch_isclose (prev_loss L m) (L m))"
  then have clip: "clip_gradients self = Some c" and T: "fit_T y tm = Inr T"
    and pos: "0 < max_iter"
    and pass: "\<forall>i<max_iter. fst (online_filter env (online_fit_state env ?y u q0 tm grp c noise self i)
                        ?y u q0 tm fit_groups True False False (noise i))
                   = Inr (M i, V i, E i)
                 \<and> fit_new_loss (E i) T = Inr (L i)"
    and n: "\<forall>m<max_iter. \<not> torch_isclose (prev_loss L m) (L m)"
    by blast+
  have "fit_loop env ?y u q0 tm grp T noise max_iter 0
          (online_fit_state env ?y u q0 tm grp c noise self 0) (prev_loss L 0) None
        = fit_loop env ?y u q0 tm grp T noise 0 max_iter
           (online_fit_state env ?y u q0 tm grp c noise self max_iter) (prev_loss L max_iter)
           (if max_iter = 0 then None else Some (M (max_iter - 1), V (max_iter - 1)))"
    by (intro fit_loop_exhausts[OF clip pass n]) simp
  then show "online_fit env self y u q0 tm max_iter grp noise
        = (Inr (M (max_iter - 1), V (max_iter - 1), Some (L (max_iter - 1))),
           online_fit_state env ?y u q0 tm grp c noise self max_iter,
           [''Maximum iteration reached.''])"
    using pos by (cases max_iter) (simp_all add: online_fit_def T prev_loss_def)
next
  show "\<not> torch_isclose (prev_loss L 0) (L 0)"
    by (simp add: torch_isclose_def prev_loss_def)
next
  show "online_fit env self (Some (NestedList t)) u q0 tm max_iter grp noise
          = (Inl AttributeError, self, [])"
    by (simp add: online_fit_def fit_T_def)
next
  show "snd (snd (VJF_fit menv mself my mu mmax meps)) = []"
    by (rule VJF_fit_prints_nothing)
next
  assume h: "as_tensor my = Inr my' \<and> fit_pairs (atleast_2d my') mu = Inr pairs \<and> 0 < mmax
            \<and> (\<forall>i<mmax. \<exists>ls ins s1.
                   fit_pass menv (VJF_fit_state menv pairs meps mself i) pairs None (meps i) 0
                     = (Inr (Q i, ls, ins), s1) \<and> ls \<noteq> [])"
  then have pr: "fit_pairs (atleast_2d my') mu = Inr pairs"
    and ps: "\<forall>i<mmax. \<exists>ls ins s1.
                   fit_pass menv (VJF_fit_state menv pairs meps mself i) pairs None (meps i) 0
                     = (Inr (Q i, ls, ins), s1) \<and> ls \<noteq> []"
    by auto
  have "VJF_fit_loop menv (atleast_2d my') mu meps mmax 0 (VJF_fit_state menv pairs meps mself 0) None
        = VJF_fit_loop menv (atleast_2d my') mu meps 0 mmax (VJF_fit_state menv pairs meps mself mmax)
            (if mmax = 0 then None else Some (Q (mmax - 1)))"
    by (intro VJF_fit_loop_runs[OF pr ps]) simp
  then show "VJF_fit menv mself my mu mmax meps
              = (Inr (Q (mmax - 1)), VJF_fit_state menv pairs meps mself mmax, [])"
    using h by (simp add: VJF_fit_def)
qed

theorem fit_convergence_counterexample:
  "VJF_fit
     (\<lparr>transition = (\<lambda>m xs u. Inr xs), recognition = (\<lambda>m y pt. Inr (DiagonalGaussian pt pt)),
       decoder = (\<lambda>m xt. Inr xt), likelihood_loss = (\<lambda>m py y. Inr 0),
       transition_loss = (\<lambda>m pt xt. Inr 0), entropy = (\<lambda>q. Inr 0),
       optimizer_step = (\<lambda>s i. s\<lparr>modules := Suc (modules s)\<rparr>)\<rparr> :: nat vjf_env)
     (VJF_init 1 0) (Some (Tensor [1, 1] [0])) None 3 (\<lambda>i t. ([0], [0]))
   = (Inr [DiagonalGaussian (Tensor [1, 1] [0]) (Tensor [1, 1] [0])],
      \<lparr>mean = Tensor [1] [0], logvar = Tensor [1] [0], modules = 3\<rparr>, [])
   \<and> map (\<lambda>k. fst (VJF_filter
       (\<lparr>transition = (\<lambda>m xs u. Inr xs), recognition = (\<lambda>m y pt. Inr (DiagonalGaussian pt pt)),
         decoder = (\<lambda>m xt. Inr xt), likelihood_loss = (\<lambda>m py y. Inr 0),
         transition_loss = (\<lambda>m pt xt. Inr 0), entropy = (\<lambda>q. Inr 0),
         optimizer_step = (\<lambda>s i. s\<lparr>modules := Suc (modules s)\<rparr>)\<rparr> :: nat vjf_env)
       \<lparr>mean = Tensor [1] [0], logvar = Tensor [1] [0], modules = k\<rparr>
       (Some (Tensor [1] [0])) None None False ([0], [0]))) [0, 1, 2]
     = [Inr (DiagonalGaussian (Tensor [1, 1] [0]) (Tensor [1, 1] [0]), 0),
        Inr (DiagonalGaussian (Tensor [1, 1] [0]) (Tensor [1, 1] [0]), 0),
        Inr (DiagonalGaussian (Tensor [1, 1] [0]) (Tensor [1, 1] [0]), 0)]"
proof -
  let ?env = "\<lparr>transition = (\<lambda>m xs u. Inr xs), recognition = (\<lambda>m y pt. Inr (DiagonalGaussian pt pt)),
       decoder = (\<lambda>m xt. Inr xt), likelihood_loss = (\<lambda>m py y. Inr 0),
       transition_loss = (\<lambda>m pt xt. Inr 0), entropy = (\<lambda>q. Inr 0),
       optimizer_step = (\<lambda>s i. s\<lparr>modules := Suc (modules s)\<rparr>)\<rparr> :: nat vjf_env"
  have l: "VJF_fit_loop ?env (atleast_2d (Tensor [1, 1] [0])) None (\<lambda>i t. ([0], [0])) (Suc k) i
             \<lparr>mean = Tensor [1] [0], logvar = Tensor [1] [0], modules = m\<rparr> q
           = (Inr [DiagonalGaussian (Tensor [1, 1] [0]) (Tensor [1, 1] [0])],
              \<lparr>mean = Tensor [1] [0], logvar = Tensor [1] [0], modules = m + Suc k\<rparr>, [])"
    for k i m q
  proof (induction k arbitrary: i m q)
    case 0
    show ?case
      by (simp add: ev_fit_pairs[unfolded One_nat_def] ev_fit_pass[unfolded One_nat_def]
          del: fit_pass.simps)
  next
    case (Suc k)
    show ?case
      unfolding VJF_fit_loop.simps(2)[of _ _ _ _ "Suc k"]
      by (simp add: ev_fit_pairs[unfolded One_nat_def] ev_fit_pass[unfolded One_nat_def]
          Suc[unfolded One_nat_def] del: fit_pass.simps VJF_fit_loop.simps)
  qed
  have a: "VJF_fit ?env (VJF_init 1 0) (Some (Tensor [1, 1] [0])) None 3 (\<lambda>i t. ([0], [0]))
   = (Inr [DiagonalGaussian (Tensor [1, 1] [0]) (Tensor [1, 1] [0])],
      \<lparr>mean = Tensor [1] [0], logvar = Tensor [1] [0], modules = 3\<rparr>, [])"
    unfolding VJF_fit_def VJF_init_def as_tensor_def
    by (simp add: l[unfolded One_nat_def] eval_nat_numeral del: VJF_fit_loop.simps)
  show ?thesis
    unfolding a list.map ev_VJF_filter by simp
qed


theorem fit_convergence_witness:
  "online_fit
     (\<lparr>recognizer = (\<lambda>p y u q. Inr q),
       elbo = (\<lambda>p q0 q obs s r n. Inr (0, 0, - real (min p 1))),
       feed_step = (\<lambda>p q0 obs s r n c g. p), fit_step = (\<lambda>p y u q0 t n c g. Suc p),
       system = (\<lambda>p x u. Inr x), state_noise_std = (\<lambda>p. Tensor [1] [1]),
       decode = (\<lambda>p x. Inr x)\<rparr> :: (nat, unit) online_env)
     \<lparr>xdim = 1, udim = 0, clip_gradients = Some 1, params = 0\<rparr>
     (Some (HasShape (Tensor [1, 1, 1] [0]))) (Some (Tensor [1, 1, 1] [0])) None True 3
     fit_groups (\<lambda>i t. ())
   = (Inr (Tensor [1, 1, 1] [0], Tensor [1, 1, 1] [0], Some 1),
      \<lparr>xdim = 1, udim = 0, clip_gradients = Some 1, params = 2\<rparr>, [''Converged''])
   \<and> online_fit
     (\<lparr>recognizer = (\<lambda>p y u q. Inr q),
       elbo = (\<lambda>p q0 q obs s r n. Inr (0, 0, - real (min p 1))),
       feed_step = (\<lambda>p q0 obs s r n c g. p), fit_step = (\<lambda>p y u q0 t n c g. Suc p),
       system = (\<lambda>p x u. Inr x), state_noise_std = (\<lambda>p. Tensor [1] [1]),
       decode = (\<lambda>p x. Inr x)\<rparr> :: (nat, unit) online_env)
     \<lparr>xdim = 1, udim = 0, clip_gradients = Some 1, params = 0\<rparr>
     (Some (HasShape (Tensor [1, 1, 1] [0]))) (Some (Tensor [1, 1, 1] [0])) None True 2
     fit_groups (\<lambda>i t. ())
   = (Inr (Tensor [1, 1, 1] [0], Tensor [1, 1, 1] [0], Some 1),
      \<lparr>xdim = 1, udim = 0, clip_gradients = Some 1, params = 2\<rparr>,
      [''Maximum iteration reached.''])
   \<and> VJF_fit
     (\<lparr>transition = (\<lambda>m xs u. Inr xs), recognition = (\<lambda>m y pt. Inr (DiagonalGaussian pt pt)),
       decoder = (\<lambda>m xt. Inr xt), likelihood_loss = (\<lambda>m py y. Inr 0),
       transition_loss = (\<lambda>m pt xt. Inr 0), entropy = (\<lambda>q. Inr 0),
       optimizer_step = (\<lambda>s i. s\<lparr>modules := Suc (modules s)\<rparr>)\<rparr> :: nat vjf_env)
     \<lparr>mean = Tensor [1] [0], logvar = Tensor [1] [0], modules = 0\<rparr>
     (Some (Tensor [1, 1] [0])) None 2 (\<lambda>i t. ([0], [0]))
   = (Inr [DiagonalGaussian (Tensor [1, 1] [0]) (Tensor [1, 1] [0])],
      \<lparr>mean = Tensor [1] [0], logvar = Tensor [1] [0], modules = 2\<rparr>, [])"
proof -
  let ?env = "\<lparr>recognizer = (\<lambda>p y u q. Inr q),
       elbo = (\<lambda>p q0 q obs s r n. Inr (0, 0, - real (min p 1))),
       feed_step = (\<lambda>p q0 obs s r n c g. p), fit_step = (\<lambda>p y u q0 t n c g. Suc p),
       system = (\<lambda>p x u. Inr x), state_noise_std = (\<lambda>p. Tensor [1] [1]),
       decode = (\<lambda>p x. Inr x)\<rparr> :: (nat, unit) online_env"
  let ?menv = "\<lparr>transition = (\<lambda>m xs u. Inr xs), recognition = (\<lambda>m y pt. Inr (DiagonalGaussian pt pt)),
       decoder = (\<lambda>m xt. Inr xt), likelihood_loss = (\<lambda>m py y. Inr 0),
       transition_loss = (\<lambda>m pt xt. Inr 0), entropy = (\<lambda>q. Inr 0),
       optimizer_step = (\<lambda>s i. s\<lparr>modules := Suc (modules s)\<rparr>)\<rparr> :: nat vjf_env"
  let ?self = "\<lparr>xdim = 1, udim = 0, clip_gradients = Some 1, params = 0::nat\<rparr>"
  let ?mself = "\<lparr>mean = Tensor [1] [0], logvar = Tensor [1] [0], modules = 0::nat\<rparr>"
  let ?a = "Some (HasShape (Tensor [1, 1, 1] [0]))"
  let ?y = "Some (Tensor [1, 1, 1] [0])"
  let ?Z = "Tensor [1, 1, 1] [0]"
  let ?q = "DiagonalGaussian (Tensor [1, 1] [0]) (Tensor [1, 1] [0])"
  let ?L = "\<lambda>i::nat. real (min i 1)"
  let ?E = "\<lambda>i::nat. [(0::real, 0::real, - real (min i 1))]"
  let ?pairs = "[(Some (Tensor [1] [0]), None :: tensor option)]"
  have av: "map_option array_value ?a = ?y" by simp
  have clip: "clip_gradients ?self = Some 1" by simp
  have T: "fit_T ?a True = Inr 1" by (simp add: fit_T_def ndim_def)
  have pass: "fst (online_filter ?env
                 (online_fit_state ?env ?y ?y None True fit_groups 1 (\<lambda>i t. ()) ?self i)
                 ?y ?y None True fit_groups True False False ((\<lambda>i t. ()) i))
               = Inr ((\<lambda>i. ?Z) i, (\<lambda>i. ?Z) i, ?E i)
             \<and> fit_new_loss (?E i) 1 = Inr (?L i)" for i
    unfolding ev_online_fit_state ev_online_filter by (simp add: fit_new_loss_def)
  have c0: "\<not> torch_isclose (prev_loss ?L 0) (?L 0)"
    and c1: "\<not> torch_isclose (prev_loss ?L 1) (?L 1)"
    and c2: "torch_isclose (prev_loss ?L 2) (?L 2)"
    by (simp_all add: torch_isclose_def prev_loss_def isclose_real_def eval_nat_numeral)
  have lt2: "m = 0 \<or> m = 1" if "m < 2" for m :: nat using that by auto
  have first: "\<forall>m<2. \<not> torch_isclose (prev_loss ?L m) (?L m)"
    using c0 c1 lt2 by blast
  have mh: "as_tensor (Some (Tensor [1, 1] [0])) = Inr (Tensor [1, 1] [0])
            \<and> fit_pairs (atleast_2d (Tensor [1, 1] [0])) None = Inr ?pairs \<and> (0::nat) < 2
            \<and> (\<forall>i<2. \<exists>ls ins s1.
                   fit_pass ?menv (VJF_fit_state ?menv ?pairs (\<lambda>i t. ([0], [0])) ?mself i)
                     ?pairs None ((\<lambda>i t. ([0], [0])) i) 0
                     = (Inr ((\<lambda>i. [?q]) i, ls, ins), s1) \<and> ls \<noteq> [])"
    unfolding ev_VJF_fit_state ev_fit_pass ev_fit_pairs by (simp add: as_tensor_def)
  have a: "online_fit ?env ?self ?a ?y None True 3 fit_groups (\<lambda>i t. ())
             = (Inr (?Z, ?Z, prev_loss ?L 2),
                online_fit_state ?env (map_option array_value ?a) ?y None True fit_groups 1
                  (\<lambda>i t. ()) ?self 2,
                [''Converged''])"
    by (rule fit_convergence[where self = ?self and c = 1 and y = ?a and tm = True and T = 1
          and j = 2 and max_iter = 3 and env = ?env and u = ?y and ?q0.0 = None
          and grp = fit_groups and noise = "\<lambda>i t. ()" and M = "\<lambda>i. ?Z" and V = "\<lambda>i. ?Z"
          and E = ?E and L = ?L, THEN conjunct1, THEN mp])
       (intro conjI allI impI clip T c2 first, simp, unfold av, rule pass[THEN conjunct1],
        rule pass[THEN conjunct2])
  have b: "online_fit ?env ?self ?a ?y None True 2 fit_groups (\<lambda>i t. ())
             = (Inr (?Z, ?Z, Some (?L (2 - 1))),
                online_fit_state ?env (map_option array_value ?a) ?y None True fit_groups 1
                  (\<lambda>i t. ()) ?self 2,
                [''Maximum iteration reached.''])"
    by (rule fit_convergence[where self = ?self and c = 1 and y = ?a and tm = True and T = 1
          and max_iter = 2 and env = ?env and u = ?y and ?q0.0 = None
          and grp = fit_groups and noise = "\<lambda>i t. ()" and M = "\<lambda>i. ?Z" and V = "\<lambda>i. ?Z"
          and E = ?E and L = ?L, THEN conjunct2, THEN conjunct1, THEN mp])
       (intro conjI allI impI clip T first, simp, unfold av, rule pass[THEN conjunct1],
        rule pass[THEN conjunct2])
  have c: "VJF_fit ?menv ?mself (Some (Tensor [1, 1] [0])) None 2 (\<lambda>i t. ([0], [0]))
             = (Inr ((\<lambda>i. [?q]) (2 - 1)),
                VJF_fit_state ?menv ?pairs (\<lambda>i t. ([0], [0])) ?mself 2, [])"
    by (rule fit_convergence[where menv = ?menv and mself = ?mself
          and my = "Some (Tensor [1, 1] [0])" and my' = "Tensor [1, 1] [0]" and mu = None
          and mmax = 2 and meps = "\<lambda>i t. ([0], [0])" and pairs = ?pairs and Q = "\<lambda>i. [?q]",
          THEN conjunct2, THEN conjunct2, THEN conjunct2, THEN conjunct2, THEN conjunct2,
          THEN mp, OF mh])
  show ?thesis
    unfolding a b c av ev_online_fit_state ev_VJF_fit_state
    by (simp add: prev_loss_def)
qed

text \<open>C9: whatever the other imports do, loading \<^verbatim>\<open>model.py\<close> fails, and so does every access to
  its classes \<^verbatim>\<open>RBFLDS\<close> and \<^verbatim>\<open>VJF\<close> (hence \<^verbatim>\<open>VJF.make_model\<close>); when all other imports succeed
  it fails with the ImportError of line 12, because \<^verbatim>\<open>module.py\<close> binds no name \<^verbatim>\<open>bLinReg\<close>.\<close>

theorem import_bLinReg_fails:
  "(\<exists>e. load_model_py ext = Inl e)
   \<and> load_model_py (\<lambda>m. Inr ()) = Inl ImportError
   \<and> (\<exists>e. model_py_attr ext ''RBFLDS'' = Inl e)
   \<and> (\<exists>e. model_py_attr ext ''VJF'' = Inl e)"
proof -
  obtain e where e: "load_model_py ext = Inl e" using load_model_py_fails by blast
  have "load_model_py (\<lambda>m. Inr ()) = Inl ImportError"
    by (simp add: load_model_py_def load_module_py_def import_from_def)
  with e show ?thesis by (simp add: model_py_attr_def)
qed




end
